theory Spec2Isabelle
  imports Main
begin

section \<open>Errors and results\<close>

text \<open>
  The Go functions return an \<open>error\<close> value built with \<open>fmt.Errorf\<close>. Each
  constructor below stands for one message format of the source; the arguments are the
  wrapped error text and, where the source appends it, the combined output of the tool.
\<close>

datatype error =
    NoFreePorts                     \<comment> \<open>"no free ports found"\<close>
  | CreateTempDirFailed string      \<comment> \<open>"failed to create temp dir: %w"\<close>
  | CloneFailed string string       \<comment> \<open>"failed to clone repository: %w: %s"\<close>
  | DockerfileNotFound              \<comment> \<open>"dockerfile not found in repository"\<close>
  | CommitHashFailed string string  \<comment> \<open>"failed to get last commit hash: %w: %s"\<close>
  | BuildFailed string string       \<comment> \<open>"failed to build Docker image: %w: %s"\<close>
  | CheckRunningFailed string string \<comment> \<open>"failed to check if container is running: %w: %s"\<close>
  | ContainerPortFailed string string \<comment> \<open>"failed to get container port: %w: %s"\<close>
  | ParsePortFailed string          \<comment> \<open>"failed to parse container port: %w"\<close>
  | RemoveContainerFailed string string \<comment> \<open>"failed to remove container: %w: %s"\<close>
  | FindFreePortFailed error        \<comment> \<open>"failed to find free port: %w"\<close>
  | RunContainerFailed string       \<comment> \<open>"failed to run Docker container: %w"\<close>
  | OpenConfigFailed string         \<comment> \<open>"failed to open config file: %w"\<close>
  | ParseConfigFailed               \<comment> \<open>"failed to parse config file: %w"\<close>

section \<open>Standard-library functions the pipeline calls\<close>

text \<open>
  Go strings are byte sequences; \<open>string\<close> (a list of 8-bit \<open>char\<close>) is the same
  thing. The functions of this section are those of Go's \<open>strings\<close>, \<open>bytes\<close> and
  \<open>strconv\<close> packages that \<open>CloneAndBuild\<close> applies to the output of the tools.
\<close>

subsection \<open>strings.TrimSpace and bytes.TrimSpace\<close>

text \<open>
  \<open>TrimSpace\<close> removes leading and trailing white space as Unicode defines it
  (\<open>unicode.IsSpace\<close>): the six ASCII characters tab, line feed, vertical tab, form
  feed, carriage return and space, and the code points U+0085, U+00A0, U+1680,
  U+2000 .. U+200A, U+2028, U+2029, U+202F, U+205F and U+3000, read in UTF-8.
\<close>

definition spaceRunes :: "string list" where
  "spaceRunes =
     [[CHR 0x09], [CHR 0x0A], [CHR 0x0B], [CHR 0x0C], [CHR 0x0D], [CHR 0x20],
      [CHR 0xC2, CHR 0x85], [CHR 0xC2, CHR 0xA0],
      [CHR 0xE1, CHR 0x9A, CHR 0x80],
      [CHR 0xE2, CHR 0x80, CHR 0x80], [CHR 0xE2, CHR 0x80, CHR 0x81],
      [CHR 0xE2, CHR 0x80, CHR 0x82], [CHR 0xE2, CHR 0x80, CHR 0x83],
      [CHR 0xE2, CHR 0x80, CHR 0x84], [CHR 0xE2, CHR 0x80, CHR 0x85],
      [CHR 0xE2, CHR 0x80, CHR 0x86], [CHR 0xE2, CHR 0x80, CHR 0x87],
      [CHR 0xE2, CHR 0x80, CHR 0x88], [CHR 0xE2, CHR 0x80, CHR 0x89],
      [CHR 0xE2, CHR 0x80, CHR 0x8A],
      [CHR 0xE2, CHR 0x80, CHR 0xA8], [CHR 0xE2, CHR 0x80, CHR 0xA9],
      [CHR 0xE2, CHR 0x80, CHR 0xAF], [CHR 0xE2, CHR 0x81, CHR 0x9F],
      [CHR 0xE3, CHR 0x80, CHR 0x80]]"

text \<open>The number of bytes of the white-space rune a string starts with, 0 if none.\<close>

definition leadingSpace :: "string \<Rightarrow> nat" where
  "leadingSpace s =
     (case find (\<lambda>r. take (length r) s = r) spaceRunes of
        None \<Rightarrow> 0
      | Some r \<Rightarrow> length r)"

function TrimLeftSpace :: "string \<Rightarrow> string" where
  "TrimLeftSpace s =
     (if leadingSpace s = 0 \<or> s = [] then s else TrimLeftSpace (drop (leadingSpace s) s))"
  by pat_completeness auto
termination
  by (relation "measure length") auto

declare TrimLeftSpace.simps [simp del]

text \<open>
  The trailing side reads the last rune of the string; for the encodings above that is
  the same as matching their reversed bytes at the start of the reversed string.
\<close>

definition trailingSpace :: "string \<Rightarrow> nat" where
  "trailingSpace s =
     (case find (\<lambda>r. take (length r) (rev s) = rev r) spaceRunes of
        None \<Rightarrow> 0
      | Some r \<Rightarrow> length r)"

function TrimRightSpace :: "string \<Rightarrow> string" where
  "TrimRightSpace s =
     (if trailingSpace s = 0 \<or> s = [] then s
      else TrimRightSpace (take (length s - trailingSpace s) s))"
  by pat_completeness auto
termination
  by (relation "measure length") auto

declare TrimRightSpace.simps [simp del]

definition TrimSpace :: "string \<Rightarrow> string" where
  "TrimSpace s = TrimRightSpace (TrimLeftSpace s)"

subsection \<open>strings.Split\<close>

text \<open>
  \<open>strings.Split(s, sep)\<close> for a separator of one byte, which is how the source calls
  it (\<open>":"\<close>): the substrings between the separators, one more than there are
  separators; \<open>Split("", ":")\<close> is the one-element slice holding the empty string.
\<close>

fun strings_Split :: "string \<Rightarrow> char \<Rightarrow> string list" where
  "strings_Split [] sep = [[]]"
| "strings_Split (c # cs) sep =
     (if c = sep then [] # strings_Split cs sep
      else (case strings_Split cs sep of
              [] \<Rightarrow> [[c]]
            | x # xs \<Rightarrow> (c # x) # xs))"

subsection \<open>Indexing a slice\<close>

text \<open>
  Go panics with "index out of range" when a slice is read at or beyond its length.
  \<open>index\<close> returns \<open>None\<close> there.
\<close>

definition index :: "'a list \<Rightarrow> nat \<Rightarrow> 'a option" where
  "index xs i = (if i < length xs then Some (xs ! i) else None)"

subsection \<open>strconv.Atoi\<close>

text \<open>
  \<open>strconv.Atoi\<close> accepts an optional sign followed by one or more decimal digits
  whose value fits Go's 64-bit \<open>int\<close>; anything else is a \<open>*NumError\<close> (a syntax or a
  range error), which is \<open>None\<close> here.
\<close>

definition isDigit :: "char \<Rightarrow> bool" where
  "isDigit c \<longleftrightarrow> (48::nat) \<le> of_char c \<and> of_char c \<le> (57::nat)"

definition digitVal :: "char \<Rightarrow> int" where
  "digitVal c = int (of_char c) - 48"

definition decimal :: "string \<Rightarrow> int" where
  "decimal ds = foldl (\<lambda>n c. n * 10 + digitVal c) 0 ds"

definition Atoi :: "string \<Rightarrow> int option" where
  "Atoi s =
     (let neg = (s \<noteq> [] \<and> hd s = CHR ''-'');
          ds = (if s \<noteq> [] \<and> (hd s = CHR ''-'' \<or> hd s = CHR ''+'') then tl s else s)
      in if ds = [] \<or> \<not> list_all isDigit ds then None
         else (let n = (if neg then - decimal ds else decimal ds)
               in if - (2 ^ 63) \<le> n \<and> n \<le> 2 ^ 63 - 1 then Some n else None))"

section \<open>net/url: the parsed repository URL\<close>

text \<open>
  \<open>handleDeploy\<close> hands the \<open>url\<close> field of the request to \<open>url.Parse\<close> of Go's
  standard library and passes the resulting \<open>*url.URL\<close> to \<open>CloneAndBuild\<close>, which
  reads its \<open>Host\<close> and \<open>Path\<close>. The record has the fields of the Go struct; the
  functions follow \<open>net/url\<close> of the Go release the repository builds with (1.22),
  with every error collapsed to \<open>None\<close>.
\<close>

datatype Userinfo = Userinfo (username: string) (password: string) (passwordSet: bool)

record URL =
  Scheme :: string
  Opaque :: string
  User :: "Userinfo option"
  Host :: string
  Path :: string
  RawPath :: string
  OmitHost :: bool
  ForceQuery :: bool
  RawQuery :: string
  Fragment :: string
  RawFragment :: string

definition emptyURL :: URL where
  "emptyURL = \<lparr>Scheme = [], Opaque = [], User = None, Host = [], Path = [], RawPath = [],
     OmitHost = False, ForceQuery = False, RawQuery = [], Fragment = [], RawFragment = []\<rparr>"

datatype encoding =
  encodePath | encodePathSegment | encodeHost | encodeZone | encodeUserPassword
  | encodeQueryComponent | encodeFragment

definition isAlpha :: "char \<Rightarrow> bool" where
  "isAlpha c \<longleftrightarrow> (let n = (of_char c :: nat) in (97 \<le> n \<and> n \<le> 122) \<or> (65 \<le> n \<and> n \<le> 90))"

definition asciiLower :: "char \<Rightarrow> char" where
  "asciiLower c = (let n = (of_char c :: nat) in if 65 \<le> n \<and> n \<le> 90 then char_of (n + 32) else c)"

definition ishex :: "char \<Rightarrow> bool" where
  "ishex c \<longleftrightarrow> (let n = (of_char c :: nat) in
     (48 \<le> n \<and> n \<le> 57) \<or> (97 \<le> n \<and> n \<le> 102) \<or> (65 \<le> n \<and> n \<le> 70))"

definition unhex :: "char \<Rightarrow> nat" where
  "unhex c = (let n = (of_char c :: nat) in
     if 48 \<le> n \<and> n \<le> 57 then n - 48
     else if 97 \<le> n \<and> n \<le> 102 then n - 97 + 10
     else if 65 \<le> n \<and> n \<le> 70 then n - 65 + 10
     else 0)"

definition upperhex :: "nat \<Rightarrow> char" where
  "upperhex n = ''0123456789ABCDEF'' ! (n mod 16)"

definition shouldEscape :: "char \<Rightarrow> encoding \<Rightarrow> bool" where
  "shouldEscape c mode =
     (if isAlpha c \<or> isDigit c then False
      else if (mode = encodeHost \<or> mode = encodeZone) \<and> c \<in> set ''!$&'()*+,;=:[]<>\"'' then False
      else if c \<in> set ''-_.~'' then False
      else if c \<in> set ''$&+,/:;=?@'' \<and> mode = encodePath then c = CHR ''?''
      else if c \<in> set ''$&+,/:;=?@'' \<and> mode = encodePathSegment then c \<in> set ''/;,?''
      else if c \<in> set ''$&+,/:;=?@'' \<and> mode = encodeUserPassword then c \<in> set ''@/?:''
      else if c \<in> set ''$&+,/:;=?@'' \<and> mode = encodeQueryComponent then True
      else if c \<in> set ''$&+,/:;=?@'' \<and> mode = encodeFragment then False
      else if mode = encodeFragment \<and> c \<in> set ''!()*'' then False
      else True)"

fun unescape :: "string \<Rightarrow> encoding \<Rightarrow> string option" where
  "unescape [] mode = Some []"
| "unescape (c # cs) mode =
     (if c = CHR ''%'' then
        (case cs of
           h1 # h2 # rest \<Rightarrow>
             (if \<not> ishex h1 \<or> \<not> ishex h2 then None
              else if mode = encodeHost \<and> unhex h1 < 8 \<and> [h1, h2] \<noteq> ''25'' then None
              else if mode = encodeZone \<and> [h1, h2] \<noteq> ''25''
                      \<and> char_of (unhex h1 * 16 + unhex h2) \<noteq> CHR '' ''
                      \<and> shouldEscape (char_of (unhex h1 * 16 + unhex h2)) encodeHost then None
              else map_option ((#) (char_of (unhex h1 * 16 + unhex h2))) (unescape rest mode))
         | _ \<Rightarrow> None)
      else if c = CHR ''+'' \<and> mode = encodeQueryComponent then
        map_option ((#) CHR '' '') (unescape cs mode)
      else if (mode = encodeHost \<or> mode = encodeZone) \<and> (of_char c :: nat) < 128
              \<and> shouldEscape c encodeHost then None
      else map_option ((#) c) (unescape cs mode))"

definition escape :: "string \<Rightarrow> encoding \<Rightarrow> string" where
  "escape s mode =
     concat (map (\<lambda>c. if shouldEscape c mode
                       then (if c = CHR '' '' \<and> mode = encodeQueryComponent then ''+''
                             else [CHR ''%'', upperhex (of_char c div 16), upperhex (of_char c mod 16)])
                       else [c]) s)"

definition HasPrefix :: "string \<Rightarrow> string \<Rightarrow> bool" where
  "HasPrefix s p \<longleftrightarrow> take (length p) s = p"

text \<open>\<open>strings.Cut\<close>, \<open>strings.Index\<close> and \<open>strings.LastIndex\<close> for a separator of one byte.\<close>

definition Cut :: "string \<Rightarrow> char \<Rightarrow> string \<times> string" where
  "Cut s sep = (takeWhile (\<lambda>c. c \<noteq> sep) s, drop 1 (dropWhile (\<lambda>c. c \<noteq> sep) s))"

definition Index :: "string \<Rightarrow> char \<Rightarrow> nat option" where
  "Index s sep = (if sep \<in> set s then Some (length (takeWhile (\<lambda>c. c \<noteq> sep) s)) else None)"

definition LastIndex :: "string \<Rightarrow> char \<Rightarrow> nat option" where
  "LastIndex s sep =
     (if sep \<in> set s then Some (length s - 1 - length (takeWhile (\<lambda>c. c \<noteq> sep) (rev s))) else None)"

text \<open>\<open>strings.Index(s, "%25")\<close>.\<close>

fun IndexPercent25 :: "string \<Rightarrow> nat option" where
  "IndexPercent25 [] = None"
| "IndexPercent25 (c # cs) =
     (if take 3 (c # cs) = ''%25'' then Some 0 else map_option Suc (IndexPercent25 cs))"

definition stringContainsCTLByte :: "string \<Rightarrow> bool" where
  "stringContainsCTLByte s \<longleftrightarrow> (\<exists>b \<in> set s. (of_char b :: nat) < 32 \<or> (of_char b :: nat) = 127)"

text \<open>
  \<open>getScheme\<close>: the scan of the raw URL for a leading \<open>scheme:\<close>. The second argument
  is the part already scanned. \<open>None\<close> is the error "missing protocol scheme".
\<close>

fun getScheme_scan :: "string \<Rightarrow> string \<Rightarrow> string \<Rightarrow> (string \<times> string) option" where
  "getScheme_scan rawURL seen [] = Some ([], rawURL)"
| "getScheme_scan rawURL seen (c # cs) =
     (if isAlpha c then getScheme_scan rawURL (seen @ [c]) cs
      else if isDigit c \<or> c \<in> set ''+-.'' then
        (if seen = [] then Some ([], rawURL) else getScheme_scan rawURL (seen @ [c]) cs)
      else if c = CHR '':'' then
        (if seen = [] then None else Some (seen, cs))
      else Some ([], rawURL))"

definition getScheme :: "string \<Rightarrow> (string \<times> string) option" where
  "getScheme rawURL = getScheme_scan rawURL [] rawURL"

definition validOptionalPort :: "string \<Rightarrow> bool" where
  "validOptionalPort port \<longleftrightarrow>
     port = [] \<or> (hd port = CHR '':'' \<and> list_all isDigit (tl port))"

definition validUserinfo :: "string \<Rightarrow> bool" where
  "validUserinfo s \<longleftrightarrow> list_all (\<lambda>r. isAlpha r \<or> isDigit r \<or> r \<in> set ''-._:~!$&'()*+,;=%@'') s"

definition parseHost :: "string \<Rightarrow> string option" where
  "parseHost host =
     (if HasPrefix host ''['' then
        (case LastIndex host CHR '']'' of
           None \<Rightarrow> None
         | Some i \<Rightarrow>
             (if \<not> validOptionalPort (drop (i + 1) host) then None
              else (case IndexPercent25 (take i host) of
                      Some zone \<Rightarrow>
                        (case (unescape (take zone host) encodeHost,
                               unescape (take (i - zone) (drop zone host)) encodeZone,
                               unescape (drop i host) encodeHost) of
                           (Some host1, Some host2, Some host3) \<Rightarrow> Some (host1 @ host2 @ host3)
                         | _ \<Rightarrow> None)
                    | None \<Rightarrow> unescape host encodeHost)))
      else (case LastIndex host CHR '':'' of
              Some i \<Rightarrow> (if \<not> validOptionalPort (drop i host) then None
                         else unescape host encodeHost)
            | None \<Rightarrow> unescape host encodeHost))"

definition parseAuthority :: "string \<Rightarrow> (Userinfo option \<times> string) option" where
  "parseAuthority authority =
     (case LastIndex authority CHR ''@'' of
        None \<Rightarrow> map_option (Pair None) (parseHost authority)
      | Some i \<Rightarrow>
          (case parseHost (drop (i + 1) authority) of
             None \<Rightarrow> None
           | Some host \<Rightarrow>
               (let userinfo = take i authority
                in if \<not> validUserinfo userinfo then None
                   else if CHR '':'' \<notin> set userinfo then
                     (case unescape userinfo encodeUserPassword of
                        None \<Rightarrow> None
                      | Some u \<Rightarrow> Some (Some (Userinfo u [] False), host))
                   else
                     (case (unescape (fst (Cut userinfo CHR '':'')) encodeUserPassword,
                            unescape (snd (Cut userinfo CHR '':'')) encodeUserPassword) of
                        (Some u, Some pw) \<Rightarrow> Some (Some (Userinfo u pw True), host)
                      | _ \<Rightarrow> None))))"

definition setPath :: "URL \<Rightarrow> string \<Rightarrow> URL option" where
  "setPath u p =
     (case unescape p encodePath of
        None \<Rightarrow> None
      | Some path \<Rightarrow>
          Some (u\<lparr>Path := path, RawPath := (if p = escape path encodePath then [] else p)\<rparr>))"

definition setFragment :: "URL \<Rightarrow> string \<Rightarrow> URL option" where
  "setFragment u f =
     (case unescape f encodeFragment of
        None \<Rightarrow> None
      | Some frag \<Rightarrow>
          Some (u\<lparr>Fragment := frag,
                  RawFragment := (if f = escape frag encodeFragment then [] else f)\<rparr>))"

text \<open>\<open>parse(rawURL, viaRequest = false)\<close>, the URL without its fragment.\<close>

definition parse :: "string \<Rightarrow> URL option" where
  "parse rawURL =
     (if stringContainsCTLByte rawURL then None
      else if rawURL = ''*'' then Some (emptyURL\<lparr>Path := ''*''\<rparr>)
      else
        (case getScheme rawURL of
           None \<Rightarrow> None
         | Some (scheme, rest0) \<Rightarrow>
             (let url1 = emptyURL\<lparr>Scheme := map asciiLower scheme\<rparr>;
                  force = (rest0 \<noteq> [] \<and> last rest0 = CHR ''?'' \<and> count_list rest0 CHR ''?'' = 1);
                  rest = (if force then butlast rest0 else fst (Cut rest0 CHR ''?''));
                  url2 = (if force then url1\<lparr>ForceQuery := True\<rparr>
                          else url1\<lparr>RawQuery := snd (Cut rest0 CHR ''?'')\<rparr>)
              in if \<not> HasPrefix rest ''/'' \<and> Scheme url2 \<noteq> [] then Some (url2\<lparr>Opaque := rest\<rparr>)
                 else if \<not> HasPrefix rest ''/'' \<and> CHR '':'' \<in> set (fst (Cut rest CHR ''/'')) then None
                 else if (Scheme url2 \<noteq> [] \<or> \<not> HasPrefix rest ''///'') \<and> HasPrefix rest ''//'' then
                   (let authority0 = drop 2 rest;
                        authority = (case Index authority0 CHR ''/'' of
                                       Some i \<Rightarrow> take i authority0 | None \<Rightarrow> authority0);
                        rest' = (case Index authority0 CHR ''/'' of
                                   Some i \<Rightarrow> drop i authority0 | None \<Rightarrow> [])
                    in (case parseAuthority authority of
                          None \<Rightarrow> None
                        | Some (user, host) \<Rightarrow> setPath (url2\<lparr>User := user, Host := host\<rparr>) rest'))
                 else if Scheme url2 \<noteq> [] \<and> HasPrefix rest ''/''
                   then setPath (url2\<lparr>OmitHost := True\<rparr>) rest
                 else setPath url2 rest)))"

text \<open>\<open>url.Parse\<close>: the fragment is cut off at the first \<open>#\<close> and set afterwards.\<close>

definition url_Parse :: "string \<Rightarrow> URL option" where
  "url_Parse rawURL =
     (case parse (fst (Cut rawURL CHR ''#'')) of
        None \<Rightarrow> None
      | Some url \<Rightarrow>
          (if snd (Cut rawURL CHR ''#'') = [] then Some url
           else setFragment url (snd (Cut rawURL CHR ''#''))))"

section \<open>Port allocation\<close>

text \<open>
  \<open>findFreePort\<close> of the source: \<open>for port := 3000; port <= 65535; port++\<close>, returning
  the first port on which \<open>net.Listen("tcp", ":port")\<close> succeeds (the listener is closed
  at once), and the error "no free ports found" after the loop. The argument \<open>listen\<close>
  is the state of the host's TCP ports: \<open>listen p\<close> holds when a bind to \<open>p\<close> succeeds.
\<close>

function findFreePort_loop :: "(int \<Rightarrow> bool) \<Rightarrow> int \<Rightarrow> error + int" where
  "findFreePort_loop listen port =
     (if port \<le> 65535
      then (if listen port then Inr port else findFreePort_loop listen (port + 1))
      else Inl NoFreePorts)"
  by pat_completeness auto
termination
  by (relation "measure (\<lambda>(listen, port). nat (65536 - port))") auto

declare findFreePort_loop.simps [simp del]

definition findFreePort :: "(int \<Rightarrow> bool) \<Rightarrow> error + int" where
  "findFreePort listen = findFreePort_loop listen 3000"

section \<open>encoding/json: decoding the request and the configuration\<close>

text \<open>
  \<open>json.NewDecoder(r).Decode(&v)\<close> reads the first JSON value of the stream and stores
  it into \<open>v\<close>. The stream is modelled by what the decoder's scanner makes of it: \<open>None\<close>
  when it does not start with a well-formed JSON value (also when it is empty or cannot
  be read), and the value otherwise. A number keeps what matters to a Go \<open>int\<close> field:
  whether its literal is an integer literal, and then its value.
\<close>

datatype number_literal = IntLit int | FracLit

datatype json =
    JNull
  | JBool bool
  | JNumber number_literal
  | JString string
  | JArray "json list"
  | JObject "(string \<times> json) list"

type_synonym json_stream = "json option"

text \<open>
  A struct field is found by its JSON name, first exactly and then ignoring case. The
  names of this program (\<open>url\<close>, \<open>http_port\<close>) hold no letter with a case variant outside
  ASCII, so the comparison is the one of the lower-cased ASCII letters.
\<close>

definition matchesField :: "string \<Rightarrow> string \<Rightarrow> bool" where
  "matchesField key name \<longleftrightarrow> map asciiLower key = map asciiLower name"

record RequestPayload =
  URL :: string

text \<open>
  Storing one member of an object into the payload: the second component tells whether
  an \<open>UnmarshalTypeError\<close> was recorded. A member of another name is skipped, \<open>null\<close>
  leaves the field as it is, and a value that is no string is a type error, after which
  the decoder goes on with the next member.
\<close>

fun storePayloadMember :: "RequestPayload \<times> bool \<Rightarrow> string \<times> json \<Rightarrow> RequestPayload \<times> bool" where
  "storePayloadMember (payload, failed) (key, v) =
     (if \<not> matchesField key ''url'' then (payload, failed)
      else (case v of
              JString str \<Rightarrow> (payload\<lparr>URL := str\<rparr>, failed)
            | JNull \<Rightarrow> (payload, failed)
            | _ \<Rightarrow> (payload, True)))"

definition decodePayload :: "json_stream \<Rightarrow> RequestPayload option" where
  "decodePayload body =
     (case body of
        None \<Rightarrow> None
      | Some JNull \<Rightarrow> Some \<lparr>URL = []\<rparr>
      | Some (JObject members) \<Rightarrow>
          (case foldl storePayloadMember (\<lparr>URL = []\<rparr>, False) members of
             (payload, failed) \<Rightarrow> if failed then None else Some payload)
      | Some _ \<Rightarrow> None)"

record Config =
  HTTPPort :: int

fun storeConfigMember :: "Config \<times> bool \<Rightarrow> string \<times> json \<Rightarrow> Config \<times> bool" where
  "storeConfigMember (config, failed) (key, v) =
     (if \<not> matchesField key ''http_port'' then (config, failed)
      else (case v of
              JNumber (IntLit n) \<Rightarrow>
                (if - (2 ^ 63) \<le> n \<and> n \<le> 2 ^ 63 - 1 then (config\<lparr>HTTPPort := n\<rparr>, failed)
                 else (config, True))
            | JNull \<Rightarrow> (config, failed)
            | _ \<Rightarrow> (config, True)))"

text \<open>Decoding into a \<open>Config\<close> that already holds values (the source presets the port).\<close>

definition decodeConfig :: "Config \<Rightarrow> json_stream \<Rightarrow> Config option" where
  "decodeConfig config file =
     (case file of
        None \<Rightarrow> None
      | Some JNull \<Rightarrow> Some config
      | Some (JObject members) \<Rightarrow>
          (case foldl storeConfigMember (config, False) members of
             (config', failed) \<Rightarrow> if failed then None else Some config')
      | Some _ \<Rightarrow> None)"

section \<open>The host: file system, external tools and TCP ports\<close>

text \<open>
  The external commands \<open>CloneAndBuild\<close> runs with \<open>exec.Command\<close>, in the order of the
  source:
  \<^item> \<open>GitClone u dir\<close>: \<open>git clone <u.String()> <dir>\<close>;
  \<^item> \<open>GitRevParse dir\<close>: \<open>git -C <dir> rev-parse --short HEAD\<close>;
  \<^item> \<open>DockerBuild tag dir\<close>: \<open>docker build -t <tag> <dir>\<close>;
  \<^item> \<open>DockerPs name\<close>: \<open>docker ps -q --filter ancestor=<name>\<close>;
  \<^item> \<open>DockerPort id\<close>: \<open>docker port <id>\<close>;
  \<^item> \<open>DockerRm id\<close>: \<open>docker rm -f <id>\<close>;
  \<^item> \<open>DockerRun port image\<close>: \<open>docker run -d -p <port>:80 <image>\<close>.
\<close>

datatype cmd =
    GitClone URL string
  | GitRevParse string
  | DockerBuild string string
  | DockerPs string
  | DockerPort string
  | DockerRm string
  | DockerRun int string

text \<open>
  What the program asks of its host, over a state \<open>'w\<close> of the world outside the process:
  \<^item> \<open>MkdirTemp\<close>: \<open>os.MkdirTemp("", "repo-*")\<close>, the new directory or the error's text;
  \<^item> \<open>RemoveAll\<close>: \<open>os.RemoveAll\<close>, the error's text when the removal failed, and the
    world it leaves either way;
  \<^item> \<open>IsNotExist\<close>: whether \<open>os.Stat\<close> of a path fails with an error that
    \<open>os.IsNotExist\<close> recognises;
  \<^item> \<open>Exec\<close>: running a command to its end (\<open>CombinedOutput\<close> or \<open>Run\<close>): the
    combined output, and the error's text when the command failed;
  \<^item> \<open>Listen\<close>: whether \<open>net.Listen("tcp", ":port")\<close> succeeds; the listener is closed
    at once, which leaves the world as it was.
\<close>

record 'w sys =
  MkdirTemp :: "'w \<Rightarrow> (string + string) \<times> 'w"
  RemoveAll :: "string \<Rightarrow> 'w \<Rightarrow> string option \<times> 'w"
  IsNotExist :: "string \<Rightarrow> 'w \<Rightarrow> bool"
  Exec :: "cmd \<Rightarrow> 'w \<Rightarrow> (string \<times> string option) \<times> 'w"
  Listen :: "'w \<Rightarrow> int \<Rightarrow> bool"

text \<open>
  The history of a run: every external command it started, with the world it started in.
\<close>

type_synonym 'w trace = "(cmd \<times> 'w) list"

definition run :: "'w sys \<Rightarrow> cmd \<Rightarrow> 'w trace \<times> 'w \<Rightarrow> (string \<times> string option) \<times> ('w trace \<times> 'w)" where
  "run sys c s =
     (case Exec sys c (snd s) of
        (r, w') \<Rightarrow> (r, (fst s @ [(c, snd s)], w')))"

definition commands :: "'w trace \<Rightarrow> cmd list" where
  "commands tr = map fst tr"

text \<open>The world the last command of a history left.\<close>

definition afterLast :: "'w sys \<Rightarrow> 'w trace \<Rightarrow> 'w" where
  "afterLast sys tr = snd (Exec sys (fst (last tr)) (snd (last tr)))"

text \<open>
  \<open>filepath.Clean\<close> and \<open>filepath.Join\<close> of two elements, for paths with the separator
  \<open>/\<close>: empty elements and \<open>.\<close> are dropped, \<open>..\<close> removes the element before it (and is
  dropped at the root), and the empty result is \<open>.\<close>.
\<close>

fun cleanElements :: "bool \<Rightarrow> string list \<Rightarrow> string list \<Rightarrow> string list" where
  "cleanElements rooted kept [] = rev kept"
| "cleanElements rooted kept (e # es) =
     (if e = ''..'' then
        (case kept of
           [] \<Rightarrow> (if rooted then cleanElements rooted [] es else cleanElements rooted [e] es)
         | k # ks \<Rightarrow> (if k = ''..'' then cleanElements rooted (e # kept) es
                      else cleanElements rooted ks es))
      else cleanElements rooted (e # kept) es)"

fun joinElements :: "string list \<Rightarrow> string" where
  "joinElements [] = []"
| "joinElements [e] = e"
| "joinElements (e # es) = e @ ''/'' @ joinElements es"

definition filepath_Clean :: "string \<Rightarrow> string" where
  "filepath_Clean path =
     (let rooted = (path \<noteq> [] \<and> hd path = CHR ''/'');
          elements = filter (\<lambda>e. e \<noteq> [] \<and> e \<noteq> ''.'') (strings_Split path CHR ''/'');
          body = joinElements (cleanElements rooted [] elements)
      in if rooted then ''/'' @ body else if body = [] then ''.'' else body)"

definition filepath_Join :: "string \<Rightarrow> string \<Rightarrow> string" where
  "filepath_Join dir name =
     (if dir \<noteq> [] then filepath_Clean (dir @ ''/'' @ name)
      else if name \<noteq> [] then filepath_Clean name
      else [])"

section \<open>The deploy pipeline\<close>

text \<open>
  A Go function either returns or panics; the one panic of this program is the
  run-time error of an index out of range (the index and the length).
\<close>

datatype panic = IndexOutOfRange nat nat

datatype 'a result = Returns 'a | Panics panic

text \<open>
  Lines 68 to 75 of \<open>CloneAndBuild\<close>: the name of the image is the URL's host followed
  by its path, the tag is the output of \<open>git rev-parse --short HEAD\<close> without the white
  space around it, and the full name is \<open>fmt.Sprintf("%s:%s", imageName, imageTag)\<close>.
\<close>

definition imageName :: "URL \<Rightarrow> string" where
  "imageName repoURL = Host repoURL @ Path repoURL"

definition imageFullName :: "URL \<Rightarrow> string \<Rightarrow> string" where
  "imageFullName repoURL b =
     (let lastCommitShortHash = TrimSpace b;
          imageTag = lastCommitShortHash
      in imageName repoURL @ '':'' @ imageTag)"

text \<open>
  Lines 128 to 137 of \<open>CloneAndBuild\<close>: \<open>docker run -d -p <port>:80 <imageFullName>\<close>.
\<close>

definition launch :: "'w sys \<Rightarrow> int \<Rightarrow> string \<Rightarrow> 'w trace \<times> 'w \<Rightarrow> error option result \<times> ('w trace \<times> 'w)" where
  "launch sys port imageRef s =
     (case run sys (DockerRun port imageRef) s of
        ((b, Some err), s') \<Rightarrow> (Returns (Some (RunContainerFailed err)), s')
      | ((b, None), s') \<Rightarrow> (Returns None, s'))"

text \<open>
  Lines 43 to 137 of \<open>CloneAndBuild\<close>: everything after the \<open>defer\<close>, in the workspace
  \<open>tempDir\<close>.
\<close>

definition pipeline :: "'w sys \<Rightarrow> URL \<Rightarrow> string \<Rightarrow> 'w trace \<times> 'w \<Rightarrow> error option result \<times> ('w trace \<times> 'w)" where
  "pipeline sys repoURL tempDir s0 =
     (case run sys (GitClone repoURL tempDir) s0 of
        ((b, Some err), s1) \<Rightarrow> (Returns (Some (CloneFailed err b)), s1)
      | ((b, None), s1) \<Rightarrow>
     if IsNotExist sys (filepath_Join tempDir ''Dockerfile'') (snd s1)
     then (Returns (Some DockerfileNotFound), s1)
     else
     (case run sys (GitRevParse tempDir) s1 of
        ((b, Some err), s2) \<Rightarrow> (Returns (Some (CommitHashFailed err b)), s2)
      | ((hash, None), s2) \<Rightarrow>
     (case run sys (DockerBuild (imageFullName repoURL hash) tempDir) s2 of
        ((b, Some err), s3) \<Rightarrow> (Returns (Some (BuildFailed err b)), s3)
      | ((b, None), s3) \<Rightarrow>
     (case run sys (DockerPs (imageName repoURL)) s3 of
        ((b, Some err), s4) \<Rightarrow> (Returns (Some (CheckRunningFailed err b)), s4)
      | ((b, None), s4) \<Rightarrow>
     (let containerID = TrimSpace b
      in
     if containerID \<noteq> [] then
       (case run sys (DockerPort containerID) s4 of
          ((b, Some err), s5) \<Rightarrow> (Returns (Some (ContainerPortFailed err b)), s5)
        | ((b, None), s5) \<Rightarrow>
       (let fields = strings_Split (TrimSpace b) CHR '':''
        in
       (case index fields 1 of
          None \<Rightarrow> (Panics (IndexOutOfRange 1 (length fields)), s5)
        | Some field \<Rightarrow>
       (case Atoi field of
          None \<Rightarrow> (Returns (Some (ParsePortFailed field)), s5)
        | Some port \<Rightarrow>
       (case run sys (DockerRm containerID) s5 of
          ((b, Some err), s6) \<Rightarrow> (Returns (Some (RemoveContainerFailed err b)), s6)
        | ((b, None), s6) \<Rightarrow> launch sys port (imageFullName repoURL hash) s6)))))
     else
       (case findFreePort (Listen sys (snd s4)) of
          Inl err \<Rightarrow> (Returns (Some (FindFreePortFailed err)), s4)
        | Inr port \<Rightarrow> launch sys port (imageFullName repoURL hash) s4))))))"

text \<open>
  \<open>CloneAndBuild\<close>: the workspace is created, \<open>os.RemoveAll(tempDir)\<close> is deferred, and
  the pipeline runs. The deferred call runs when the function leaves, by a return or by
  a panic, and the error it returns is dropped. The result is what the function returns,
  the history of its commands and the world it leaves.
\<close>

definition CloneAndBuild :: "'w sys \<Rightarrow> URL \<Rightarrow> 'w \<Rightarrow> error option result \<times> 'w trace \<times> 'w" where
  "CloneAndBuild sys repoURL w =
     (case MkdirTemp sys w of
        (Inl err, w1) \<Rightarrow> (Returns (Some (CreateTempDirFailed err)), [], w1)
      | (Inr tempDir, w1) \<Rightarrow>
          (case pipeline sys repoURL tempDir ([], w1) of
             (r, (tr, w2)) \<Rightarrow> (r, tr, snd (RemoveAll sys tempDir w2))))"

section \<open>The HTTP handler\<close>

text \<open>
  What the handler wrote to its \<open>http.ResponseWriter\<close>: the status code and the body.
  \<open>http.Error\<close> writes the message followed by a line feed.
\<close>

record Response =
  StatusCode :: nat
  Written :: string

definition http_Error :: "string \<Rightarrow> nat \<Rightarrow> Response" where
  "http_Error msg code = \<lparr>StatusCode = code, Written = msg @ [CHR 0x0A]\<rparr>"

definition StatusOK :: nat where "StatusOK = 200"
definition StatusBadRequest :: nat where "StatusBadRequest = 400"
definition StatusInternalServerError :: nat where "StatusInternalServerError = 500"

text \<open>
  \<open>handleDeploy\<close>, on the body of the request. A panic of \<open>CloneAndBuild\<close> leaves the
  handler before anything is written.
\<close>

definition handleDeploy :: "'w sys \<Rightarrow> json_stream \<Rightarrow> 'w \<Rightarrow> Response result \<times> 'w trace \<times> 'w" where
  "handleDeploy sys body w =
     (case decodePayload body of
        None \<Rightarrow> (Returns (http_Error ''Invalid request payload'' StatusBadRequest), [], w)
      | Some payload \<Rightarrow>
     (case url_Parse (URL payload) of
        None \<Rightarrow> (Returns (http_Error ''Invalid URL'' StatusBadRequest), [], w)
      | Some parsedURL \<Rightarrow>
     (case CloneAndBuild sys parsedURL w of
        (Panics p, tr, w') \<Rightarrow> (Panics p, tr, w')
      | (Returns (Some err), tr, w') \<Rightarrow>
          (Returns (http_Error ''Internal server error'' StatusInternalServerError), tr, w')
      | (Returns None, tr, w') \<Rightarrow>
          (Returns \<lparr>StatusCode = StatusOK, Written = ''Repository successfully processed''\<rparr>, tr, w'))))"

section \<open>Startup configuration\<close>

text \<open>
  \<open>os.Open\<close> of the configuration path: the file does not exist
  (\<open>errors.Is(err, os.ErrNotExist)\<close>), another error, or the opened file as the decoder
  will read it.
\<close>

datatype open_result = NotExist string | OpenError string | Opened json_stream

text \<open>
  \<open>parseJsonConfig\<close> returns a \<open>Config\<close> and an error; on an error the \<open>Config\<close> is the
  zero value.
\<close>

definition parseJsonConfig :: "(string \<Rightarrow> open_result) \<Rightarrow> string \<Rightarrow> Config \<times> error option" where
  "parseJsonConfig os_Open configPath =
     (let config = \<lparr>HTTPPort = 80\<rparr>
      in (case os_Open configPath of
            NotExist err \<Rightarrow> (config, None)
          | OpenError err \<Rightarrow> (\<lparr>HTTPPort = 0\<rparr>, Some (OpenConfigFailed err))
          | Opened file \<Rightarrow>
              (case decodeConfig config file of
                 None \<Rightarrow> (\<lparr>HTTPPort = 0\<rparr>, Some ParseConfigFailed)
               | Some config' \<Rightarrow> (config', None))))"

section \<open>A host to run the pipeline on\<close>

text \<open>
  The tools, the file system and the ports are outside the repository. To speak of
  running instances and of directories that exist, the pipeline is also run on the
  following host, whose tools behave as \<open>git\<close> and \<open>docker\<close> document them:
  \<^item> \<open>git clone\<close> writes the files of the repository's working tree into the workspace, and
    \<open>git rev-parse --short HEAD\<close> prints the short identifier of its revision;
  \<^item> \<open>docker ps -q --filter ancestor=<reference>\<close> prints, one per line, the identifiers
    of the running containers started from the image of that reference; as docker
    documents it, a reference without a tag stands for the tag \<open>latest\<close>;
  \<^item> \<open>docker port <id>\<close> prints the binding of the container's port 80, as in
    \<open>80/tcp -> 0.0.0.0:3000\<close>, and fails for an identifier that no container has;
  \<^item> \<open>docker rm -f <id>\<close> removes that container, and fails if there is none;
  \<^item> \<open>docker run -d -p <port>:80 <image>\<close> starts a container from the image, bound
    to the host port, and fails when the port is taken.
  Any command can moreover fail for a reason of its own (\<open>failing\<close>): the network, the
  build, the daemon. An image is identified with the reference a container was started
  from: no two references name one image, and no image is built on another.
  \<open>os.RemoveAll\<close> removes a directory and the files below it, unless the process cannot
  remove the directory (\<open>undeletable\<close>, for instance for its permissions): then it
  returns an error and the directory stays.
\<close>

record container =
  ID :: string
  Image :: string
  HostPort :: int

record host =
  nextTemp :: "string + string"   \<comment> \<open>what \<open>os.MkdirTemp\<close> does next: the error, or the new directory\<close>
  dirs :: "string list"           \<comment> \<open>the directories that exist\<close>
  files :: "string list"          \<comment> \<open>the files that exist\<close>
  repoFiles :: "string list"      \<comment> \<open>the working tree of the repository, as file names\<close>
  headRev :: string               \<comment> \<open>what \<open>git rev-parse --short HEAD\<close> prints\<close>
  failing :: "cmd \<Rightarrow> (string \<times> string) option" \<comment> \<open>the commands that fail: output and error\<close>
  containers :: "container list"  \<comment> \<open>the running containers\<close>
  nextID :: string                \<comment> \<open>the identifier of the next container\<close>
  bound :: "int list"             \<comment> \<open>the ports other listeners are bound to\<close>
  undeletable :: "string list"    \<comment> \<open>the directories the process cannot remove\<close>

text \<open>\<open>strconv.Itoa\<close>, for what the tools print.\<close>

function decimalDigits :: "nat \<Rightarrow> string" where
  "decimalDigits n =
     (if n < 10 then [char_of (48 + n)]
      else decimalDigits (n div 10) @ [char_of (48 + n mod 10)])"
  by pat_completeness auto
termination
  by (relation "measure id") auto

declare decimalDigits.simps [simp del]

definition Itoa :: "int \<Rightarrow> string" where
  "Itoa n = (if n < 0 then CHR ''-'' # decimalDigits (nat (- n)) else decimalDigits (nat n))"

text \<open>
  An image reference has a tag when a colon follows its last \<open>/\<close>; a reference without
  one is read as the tag \<open>latest\<close>.
\<close>

definition withDefaultTag :: "string \<Rightarrow> string" where
  "withDefaultTag reference =
     (if CHR '':'' \<in> set (takeWhile (\<lambda>c. c \<noteq> CHR ''/'') (rev reference)) then reference
      else reference @ '':latest'')"

definition ancestorIs :: "string \<Rightarrow> container \<Rightarrow> bool" where
  "ancestorIs reference c \<longleftrightarrow> Image c = withDefaultTag reference"

definition host_Listen :: "host \<Rightarrow> int \<Rightarrow> bool" where
  "host_Listen h port \<longleftrightarrow> port \<notin> set (bound h) \<and> port \<notin> set (map HostPort (containers h))"

definition host_MkdirTemp :: "host \<Rightarrow> (string + string) \<times> host" where
  "host_MkdirTemp h =
     (case nextTemp h of
        Inl err \<Rightarrow> (Inl err, h)
      | Inr dir \<Rightarrow> (Inr dir, h\<lparr>dirs := dir # dirs h\<rparr>))"

definition host_RemoveAll :: "string \<Rightarrow> host \<Rightarrow> string option \<times> host" where
  "host_RemoveAll dir h =
     (if dir \<in> set (undeletable h) then (Some ''permission denied'', h)
      else (None,
            h\<lparr>dirs := filter (\<lambda>d. d \<noteq> dir) (dirs h),
              files := filter (\<lambda>f. \<not> HasPrefix f (filepath_Clean dir @ ''/'')) (files h)\<rparr>))"

definition host_IsNotExist :: "string \<Rightarrow> host \<Rightarrow> bool" where
  "host_IsNotExist path h \<longleftrightarrow> path \<notin> set (files h)"

definition host_Exec :: "cmd \<Rightarrow> host \<Rightarrow> (string \<times> string option) \<times> host" where
  "host_Exec c h =
     (case failing h c of
        Some (out, err) \<Rightarrow> ((out, Some err), h)
      | None \<Rightarrow>
     (case c of
        GitClone u dir \<Rightarrow>
          (([], None), h\<lparr>files := map (filepath_Join dir) (repoFiles h) @ files h\<rparr>)
      | GitRevParse dir \<Rightarrow> ((headRev h, None), h)
      | DockerBuild tag dir \<Rightarrow> (([], None), h)
      | DockerPs reference \<Rightarrow>
          ((concat (map (\<lambda>c. ID c @ [CHR 0x0A]) (filter (ancestorIs reference) (containers h))),
            None), h)
      | DockerPort cid \<Rightarrow>
          (case find (\<lambda>c. ID c = cid) (containers h) of
             None \<Rightarrow> ((''Error: No such container: '' @ cid @ [CHR 0x0A], Some ''exit status 1''), h)
           | Some c \<Rightarrow> ((''80/tcp -> 0.0.0.0:'' @ Itoa (HostPort c) @ [CHR 0x0A], None), h))
      | DockerRm cid \<Rightarrow>
          (case find (\<lambda>c. ID c = cid) (containers h) of
             None \<Rightarrow> ((''Error: No such container: '' @ cid @ [CHR 0x0A], Some ''exit status 1''), h)
           | Some c \<Rightarrow>
               ((cid @ [CHR 0x0A], None),
                h\<lparr>containers := filter (\<lambda>c. ID c \<noteq> cid) (containers h)\<rparr>))
      | DockerRun port imageRef \<Rightarrow>
          (if host_Listen h port
           then ((nextID h @ [CHR 0x0A], None),
                 h\<lparr>containers := containers h @ [\<lparr>ID = nextID h, Image = imageRef, HostPort = port\<rparr>]\<rparr>)
           else ((''docker: Error response from daemon: port is already allocated.'' @ [CHR 0x0A],
                  Some ''exit status 125''), h))))"

definition host_sys :: "host sys" where
  "host_sys = \<lparr>MkdirTemp = host_MkdirTemp, RemoveAll = host_RemoveAll,
     IsNotExist = host_IsNotExist, Exec = host_Exec, Listen = host_Listen\<rparr>"

text \<open>
  A host for examples: the repository \<open>https://github.com/user/repo\<close> with a Dockerfile
  at revision \<open>a1b2c3d\<close>, nothing running, no port taken, no tool failing.
\<close>

definition host0 :: host where
  "host0 = \<lparr>nextTemp = Inr ''/tmp/repo-1'', dirs = [], files = [],
     repoFiles = [''Dockerfile'', ''main.go''], headRev = ''a1b2c3d'' @ [CHR 0x0A],
     failing = (\<lambda>c. None), containers = [], nextID = ''c0ffee'', bound = [],
     undeletable = []\<rparr>"

definition repo0 :: URL where
  "repo0 = emptyURL\<lparr>Scheme := ''https'', Host := ''github.com'', Path := ''/user/repo''\<rparr>"

definition body0 :: json_stream where
  "body0 = Some (JObject [(''url'', JString ''https://github.com/user/repo'')])"

text \<open>Further hosts for examples.\<close>

definition host1 :: host where
  \<comment> \<open>one instance of the image tagged \<open>latest\<close> is running, on port 3005\<close>
  "host1 = host0\<lparr>containers :=
     [\<lparr>ID = ''abc123'', Image = ''github.com/user/repo:latest'', HostPort = 3005\<rparr>]\<rparr>"

definition host2 :: host where
  \<comment> \<open>two instances of the image tagged \<open>latest\<close> are running\<close>
  "host2 = host0\<lparr>containers :=
     [\<lparr>ID = ''abc123'', Image = ''github.com/user/repo:latest'', HostPort = 3005\<rparr>,
      \<lparr>ID = ''def456'', Image = ''github.com/user/repo:latest'', HostPort = 3006\<rparr>]\<rparr>"

definition hostEarlier :: host where
  \<comment> \<open>the instance an earlier deploy started, from revision \<open>0000000\<close>, is running on port 3005\<close>
  "hostEarlier = host0\<lparr>containers :=
     [\<lparr>ID = ''abc123'', Image = ''github.com/user/repo:0000000'', HostPort = 3005\<rparr>]\<rparr>"

definition hostStuck :: host where
  \<comment> \<open>the process cannot remove the workspace it will create\<close>
  "hostStuck = host0\<lparr>undeletable := [''/tmp/repo-1'']\<rparr>"

definition inDirs :: "string \<Rightarrow> host \<Rightarrow> bool" where
  \<comment> \<open>the directory exists on the host\<close>
  "inDirs dir h \<longleftrightarrow> dir \<in> set (dirs h)"

definition hostTaken :: host where
  \<comment> \<open>another listener holds port 3000\<close>
  "hostTaken = host0\<lparr>bound := [3000]\<rparr>"

definition hostBusy :: host where
  \<comment> \<open>other listeners hold ports 3000 and 3001\<close>
  "hostBusy = host0\<lparr>bound := [3000, 3001]\<rparr>"

definition hostOther :: host where
  \<comment> \<open>another workspace name, and \<open>git\<close> ends its line with carriage return and line feed\<close>
  "hostOther = host0\<lparr>nextTemp := Inr ''/tmp/repo-2'', headRev := ''a1b2c3d'' @ [CHR 0x0D, CHR 0x0A]\<rparr>"

definition hostNoDockerfile :: host where
  \<comment> \<open>the repository has no Dockerfile\<close>
  "hostNoDockerfile = host0\<lparr>repoFiles := [''main.go'']\<rparr>"

definition hostUnreachable :: host where
  \<comment> \<open>\<open>git clone\<close> fails\<close>
  "hostUnreachable = host0\<lparr>failing :=
     (\<lambda>c. case c of
            GitClone u dir \<Rightarrow> Some (''fatal: repository not found'' @ [CHR 0x0A], ''exit status 128'')
          | _ \<Rightarrow> None)\<rparr>"

definition terse_sys :: "host sys" where
  \<comment> \<open>a container runtime whose port query prints the port alone\<close>
  "terse_sys = host_sys\<lparr>Exec :=
     (\<lambda>c h. case c of DockerPort cid \<Rightarrow> ((''3005'', None), h) | _ \<Rightarrow> host_Exec c h)\<rparr>"

definition bodyNotAUrl :: json_stream where
  \<comment> \<open>the request body \<open>{"url": "not a url"}\<close>\<close>
  "bodyNotAUrl = Some (JObject [(''url'', JString ''not a url'')])"

definition bodyNoScheme :: json_stream where
  \<comment> \<open>the request body \<open>{"url": "://github.com/user/repo"}\<close>\<close>
  "bodyNoScheme = Some (JObject [(''url'', JString ''://github.com/user/repo'')])"

definition configFiles :: "string \<Rightarrow> open_result" where
  \<comment> \<open>a file system with two configuration files\<close>
  "configFiles path =
     (if path = ''config.json'' then Opened (Some (JObject [(''http_port'', JNumber (IntLit 8080))]))
      else if path = ''broken.json'' then Opened (Some (JObject [(''http_port'', JString ''8080'')]))
      else if path = ''/root/config.json'' then OpenError ''permission denied''
      else NotExist ''no such file or directory'')"


section \<open>The runs of CloneAndBuild\<close>

text \<open>
  The paths through \<open>CloneAndBuild\<close>, one rule for each place where the function
  leaves: what each command answered, what the function returns, the history of its
  commands, and the world it leaves after the deferred \<open>os.RemoveAll\<close>. The relation
  is used to reason about the function; \<open>outcome_CloneAndBuild\<close> below shows that
  every run of the function is one of these.
\<close>

inductive outcome :: "'w sys \<Rightarrow> URL \<Rightarrow> 'w \<Rightarrow> error option result \<times> 'w trace \<times> 'w \<Rightarrow> bool"
  for sys :: "'w sys" and u :: URL and w :: 'w where
  TempDirFailed:
    "MkdirTemp sys w = (Inl e, w0) \<Longrightarrow>
     outcome sys u w (Returns (Some (CreateTempDirFailed e)), [], w0)"
| CloneFailed:
    "MkdirTemp sys w = (Inr d, w0) \<Longrightarrow>
     Exec sys (GitClone u d) w0 = ((b1, Some e), w1) \<Longrightarrow>
     outcome sys u w (Returns (Some (CloneFailed e b1)), [(GitClone u d, w0)], snd (RemoveAll sys d w1))"
| NoDockerfile:
    "MkdirTemp sys w = (Inr d, w0) \<Longrightarrow>
     Exec sys (GitClone u d) w0 = ((b1, None), w1) \<Longrightarrow>
     IsNotExist sys (filepath_Join d ''Dockerfile'') w1 \<Longrightarrow>
     outcome sys u w (Returns (Some DockerfileNotFound), [(GitClone u d, w0)], snd (RemoveAll sys d w1))"
| RevParseFailed:
    "MkdirTemp sys w = (Inr d, w0) \<Longrightarrow>
     Exec sys (GitClone u d) w0 = ((b1, None), w1) \<Longrightarrow>
     \<not> IsNotExist sys (filepath_Join d ''Dockerfile'') w1 \<Longrightarrow>
     Exec sys (GitRevParse d) w1 = ((hash, Some e), w2) \<Longrightarrow>
     outcome sys u w (Returns (Some (CommitHashFailed e hash)),
       [(GitClone u d, w0), (GitRevParse d, w1)], snd (RemoveAll sys d w2))"
| BuildFailed:
    "MkdirTemp sys w = (Inr d, w0) \<Longrightarrow>
     Exec sys (GitClone u d) w0 = ((b1, None), w1) \<Longrightarrow>
     \<not> IsNotExist sys (filepath_Join d ''Dockerfile'') w1 \<Longrightarrow>
     Exec sys (GitRevParse d) w1 = ((hash, None), w2) \<Longrightarrow>
     Exec sys (DockerBuild (imageFullName u hash) d) w2 = ((b3, Some e), w3) \<Longrightarrow>
     outcome sys u w (Returns (Some (BuildFailed e b3)),
       [(GitClone u d, w0), (GitRevParse d, w1), (DockerBuild (imageFullName u hash) d, w2)],
       snd (RemoveAll sys d w3))"
| ProbeFailed:
    "MkdirTemp sys w = (Inr d, w0) \<Longrightarrow>
     Exec sys (GitClone u d) w0 = ((b1, None), w1) \<Longrightarrow>
     \<not> IsNotExist sys (filepath_Join d ''Dockerfile'') w1 \<Longrightarrow>
     Exec sys (GitRevParse d) w1 = ((hash, None), w2) \<Longrightarrow>
     Exec sys (DockerBuild (imageFullName u hash) d) w2 = ((b3, None), w3) \<Longrightarrow>
     Exec sys (DockerPs (imageName u)) w3 = ((b4, Some e), w4) \<Longrightarrow>
     outcome sys u w (Returns (Some (CheckRunningFailed e b4)),
       [(GitClone u d, w0), (GitRevParse d, w1), (DockerBuild (imageFullName u hash) d, w2),
        (DockerPs (imageName u), w3)],
       snd (RemoveAll sys d w4))"
| PortQueryFailed:
    "MkdirTemp sys w = (Inr d, w0) \<Longrightarrow>
     Exec sys (GitClone u d) w0 = ((b1, None), w1) \<Longrightarrow>
     \<not> IsNotExist sys (filepath_Join d ''Dockerfile'') w1 \<Longrightarrow>
     Exec sys (GitRevParse d) w1 = ((hash, None), w2) \<Longrightarrow>
     Exec sys (DockerBuild (imageFullName u hash) d) w2 = ((b3, None), w3) \<Longrightarrow>
     Exec sys (DockerPs (imageName u)) w3 = ((b4, None), w4) \<Longrightarrow>
     TrimSpace b4 \<noteq> [] \<Longrightarrow>
     Exec sys (DockerPort (TrimSpace b4)) w4 = ((b5, Some e), w5) \<Longrightarrow>
     outcome sys u w (Returns (Some (ContainerPortFailed e b5)),
       [(GitClone u d, w0), (GitRevParse d, w1), (DockerBuild (imageFullName u hash) d, w2),
        (DockerPs (imageName u), w3), (DockerPort (TrimSpace b4), w4)],
       snd (RemoveAll sys d w5))"
| PortIndexPanics:
    "MkdirTemp sys w = (Inr d, w0) \<Longrightarrow>
     Exec sys (GitClone u d) w0 = ((b1, None), w1) \<Longrightarrow>
     \<not> IsNotExist sys (filepath_Join d ''Dockerfile'') w1 \<Longrightarrow>
     Exec sys (GitRevParse d) w1 = ((hash, None), w2) \<Longrightarrow>
     Exec sys (DockerBuild (imageFullName u hash) d) w2 = ((b3, None), w3) \<Longrightarrow>
     Exec sys (DockerPs (imageName u)) w3 = ((b4, None), w4) \<Longrightarrow>
     TrimSpace b4 \<noteq> [] \<Longrightarrow>
     Exec sys (DockerPort (TrimSpace b4)) w4 = ((b5, None), w5) \<Longrightarrow>
     index (strings_Split (TrimSpace b5) CHR '':'') 1 = None \<Longrightarrow>
     outcome sys u w (Panics (IndexOutOfRange 1 (length (strings_Split (TrimSpace b5) CHR '':''))),
       [(GitClone u d, w0), (GitRevParse d, w1), (DockerBuild (imageFullName u hash) d, w2),
        (DockerPs (imageName u), w3), (DockerPort (TrimSpace b4), w4)],
       snd (RemoveAll sys d w5))"
| PortParseFailed:
    "MkdirTemp sys w = (Inr d, w0) \<Longrightarrow>
     Exec sys (GitClone u d) w0 = ((b1, None), w1) \<Longrightarrow>
     \<not> IsNotExist sys (filepath_Join d ''Dockerfile'') w1 \<Longrightarrow>
     Exec sys (GitRevParse d) w1 = ((hash, None), w2) \<Longrightarrow>
     Exec sys (DockerBuild (imageFullName u hash) d) w2 = ((b3, None), w3) \<Longrightarrow>
     Exec sys (DockerPs (imageName u)) w3 = ((b4, None), w4) \<Longrightarrow>
     TrimSpace b4 \<noteq> [] \<Longrightarrow>
     Exec sys (DockerPort (TrimSpace b4)) w4 = ((b5, None), w5) \<Longrightarrow>
     index (strings_Split (TrimSpace b5) CHR '':'') 1 = Some field \<Longrightarrow>
     Atoi field = None \<Longrightarrow>
     outcome sys u w (Returns (Some (ParsePortFailed field)),
       [(GitClone u d, w0), (GitRevParse d, w1), (DockerBuild (imageFullName u hash) d, w2),
        (DockerPs (imageName u), w3), (DockerPort (TrimSpace b4), w4)],
       snd (RemoveAll sys d w5))"
| RemoveFailed:
    "MkdirTemp sys w = (Inr d, w0) \<Longrightarrow>
     Exec sys (GitClone u d) w0 = ((b1, None), w1) \<Longrightarrow>
     \<not> IsNotExist sys (filepath_Join d ''Dockerfile'') w1 \<Longrightarrow>
     Exec sys (GitRevParse d) w1 = ((hash, None), w2) \<Longrightarrow>
     Exec sys (DockerBuild (imageFullName u hash) d) w2 = ((b3, None), w3) \<Longrightarrow>
     Exec sys (DockerPs (imageName u)) w3 = ((b4, None), w4) \<Longrightarrow>
     TrimSpace b4 \<noteq> [] \<Longrightarrow>
     Exec sys (DockerPort (TrimSpace b4)) w4 = ((b5, None), w5) \<Longrightarrow>
     index (strings_Split (TrimSpace b5) CHR '':'') 1 = Some field \<Longrightarrow>
     Atoi field = Some port \<Longrightarrow>
     Exec sys (DockerRm (TrimSpace b4)) w5 = ((b6, Some e), w6) \<Longrightarrow>
     outcome sys u w (Returns (Some (RemoveContainerFailed e b6)),
       [(GitClone u d, w0), (GitRevParse d, w1), (DockerBuild (imageFullName u hash) d, w2),
        (DockerPs (imageName u), w3), (DockerPort (TrimSpace b4), w4),
        (DockerRm (TrimSpace b4), w5)],
       snd (RemoveAll sys d w6))"
| ReplaceRunFailed:
    "MkdirTemp sys w = (Inr d, w0) \<Longrightarrow>
     Exec sys (GitClone u d) w0 = ((b1, None), w1) \<Longrightarrow>
     \<not> IsNotExist sys (filepath_Join d ''Dockerfile'') w1 \<Longrightarrow>
     Exec sys (GitRevParse d) w1 = ((hash, None), w2) \<Longrightarrow>
     Exec sys (DockerBuild (imageFullName u hash) d) w2 = ((b3, None), w3) \<Longrightarrow>
     Exec sys (DockerPs (imageName u)) w3 = ((b4, None), w4) \<Longrightarrow>
     TrimSpace b4 \<noteq> [] \<Longrightarrow>
     Exec sys (DockerPort (TrimSpace b4)) w4 = ((b5, None), w5) \<Longrightarrow>
     index (strings_Split (TrimSpace b5) CHR '':'') 1 = Some field \<Longrightarrow>
     Atoi field = Some port \<Longrightarrow>
     Exec sys (DockerRm (TrimSpace b4)) w5 = ((b6, None), w6) \<Longrightarrow>
     Exec sys (DockerRun port (imageFullName u hash)) w6 = ((b7, Some e), w7) \<Longrightarrow>
     outcome sys u w (Returns (Some (RunContainerFailed e)),
       [(GitClone u d, w0), (GitRevParse d, w1), (DockerBuild (imageFullName u hash) d, w2),
        (DockerPs (imageName u), w3), (DockerPort (TrimSpace b4), w4),
        (DockerRm (TrimSpace b4), w5), (DockerRun port (imageFullName u hash), w6)],
       snd (RemoveAll sys d w7))"
| Replaced:
    "MkdirTemp sys w = (Inr d, w0) \<Longrightarrow>
     Exec sys (GitClone u d) w0 = ((b1, None), w1) \<Longrightarrow>
     \<not> IsNotExist sys (filepath_Join d ''Dockerfile'') w1 \<Longrightarrow>
     Exec sys (GitRevParse d) w1 = ((hash, None), w2) \<Longrightarrow>
     Exec sys (DockerBuild (imageFullName u hash) d) w2 = ((b3, None), w3) \<Longrightarrow>
     Exec sys (DockerPs (imageName u)) w3 = ((b4, None), w4) \<Longrightarrow>
     TrimSpace b4 \<noteq> [] \<Longrightarrow>
     Exec sys (DockerPort (TrimSpace b4)) w4 = ((b5, None), w5) \<Longrightarrow>
     index (strings_Split (TrimSpace b5) CHR '':'') 1 = Some field \<Longrightarrow>
     Atoi field = Some port \<Longrightarrow>
     Exec sys (DockerRm (TrimSpace b4)) w5 = ((b6, None), w6) \<Longrightarrow>
     Exec sys (DockerRun port (imageFullName u hash)) w6 = ((b7, None), w7) \<Longrightarrow>
     outcome sys u w (Returns None,
       [(GitClone u d, w0), (GitRevParse d, w1), (DockerBuild (imageFullName u hash) d, w2),
        (DockerPs (imageName u), w3), (DockerPort (TrimSpace b4), w4),
        (DockerRm (TrimSpace b4), w5), (DockerRun port (imageFullName u hash), w6)],
       snd (RemoveAll sys d w7))"
| NoFreePort:
    "MkdirTemp sys w = (Inr d, w0) \<Longrightarrow>
     Exec sys (GitClone u d) w0 = ((b1, None), w1) \<Longrightarrow>
     \<not> IsNotExist sys (filepath_Join d ''Dockerfile'') w1 \<Longrightarrow>
     Exec sys (GitRevParse d) w1 = ((hash, None), w2) \<Longrightarrow>
     Exec sys (DockerBuild (imageFullName u hash) d) w2 = ((b3, None), w3) \<Longrightarrow>
     Exec sys (DockerPs (imageName u)) w3 = ((b4, None), w4) \<Longrightarrow>
     TrimSpace b4 = [] \<Longrightarrow>
     findFreePort (Listen sys w4) = Inl e \<Longrightarrow>
     outcome sys u w (Returns (Some (FindFreePortFailed e)),
       [(GitClone u d, w0), (GitRevParse d, w1), (DockerBuild (imageFullName u hash) d, w2),
        (DockerPs (imageName u), w3)],
       snd (RemoveAll sys d w4))"
| FreshRunFailed:
    "MkdirTemp sys w = (Inr d, w0) \<Longrightarrow>
     Exec sys (GitClone u d) w0 = ((b1, None), w1) \<Longrightarrow>
     \<not> IsNotExist sys (filepath_Join d ''Dockerfile'') w1 \<Longrightarrow>
     Exec sys (GitRevParse d) w1 = ((hash, None), w2) \<Longrightarrow>
     Exec sys (DockerBuild (imageFullName u hash) d) w2 = ((b3, None), w3) \<Longrightarrow>
     Exec sys (DockerPs (imageName u)) w3 = ((b4, None), w4) \<Longrightarrow>
     TrimSpace b4 = [] \<Longrightarrow>
     findFreePort (Listen sys w4) = Inr port \<Longrightarrow>
     Exec sys (DockerRun port (imageFullName u hash)) w4 = ((b7, Some e), w7) \<Longrightarrow>
     outcome sys u w (Returns (Some (RunContainerFailed e)),
       [(GitClone u d, w0), (GitRevParse d, w1), (DockerBuild (imageFullName u hash) d, w2),
        (DockerPs (imageName u), w3), (DockerRun port (imageFullName u hash), w4)],
       snd (RemoveAll sys d w7))"
| Fresh:
    "MkdirTemp sys w = (Inr d, w0) \<Longrightarrow>
     Exec sys (GitClone u d) w0 = ((b1, None), w1) \<Longrightarrow>
     \<not> IsNotExist sys (filepath_Join d ''Dockerfile'') w1 \<Longrightarrow>
     Exec sys (GitRevParse d) w1 = ((hash, None), w2) \<Longrightarrow>
     Exec sys (DockerBuild (imageFullName u hash) d) w2 = ((b3, None), w3) \<Longrightarrow>
     Exec sys (DockerPs (imageName u)) w3 = ((b4, None), w4) \<Longrightarrow>
     TrimSpace b4 = [] \<Longrightarrow>
     findFreePort (Listen sys w4) = Inr port \<Longrightarrow>
     Exec sys (DockerRun port (imageFullName u hash)) w4 = ((b7, None), w7) \<Longrightarrow>
     outcome sys u w (Returns None,
       [(GitClone u d, w0), (GitRevParse d, w1), (DockerBuild (imageFullName u hash) d, w2),
        (DockerPs (imageName u), w3), (DockerRun port (imageFullName u hash), w4)],
       snd (RemoveAll sys d w7))"

section \<open>Properties of the port allocator\<close>

lemma findFreePort_loop_Inr:
  "findFreePort_loop listen start = Inr p \<longleftrightarrow>
     (start \<le> p \<and> p \<le> 65535 \<and> listen p \<and> (\<forall>q. start \<le> q \<and> q < p \<longrightarrow> \<not> listen q))"
proof (induction listen start rule: findFreePort_loop.induct)
  case (1 listen port)
  show ?case
  proof (cases "port \<le> 65535")
    case False
    then show ?thesis
      by (subst findFreePort_loop.simps) auto
  next
    case inrange: True
    show ?thesis
    proof (cases "listen port")
      case True
      with inrange show ?thesis
        by (subst findFreePort_loop.simps) (auto simp: not_less)
    next
      case False
      have step: "findFreePort_loop listen port = findFreePort_loop listen (port + 1)"
        using inrange False by (subst findFreePort_loop.simps) simp
      have "(port + 1 \<le> p \<and> p \<le> 65535 \<and> listen p \<and> (\<forall>q. port + 1 \<le> q \<and> q < p \<longrightarrow> \<not> listen q))
            \<longleftrightarrow> (port \<le> p \<and> p \<le> 65535 \<and> listen p \<and> (\<forall>q. port \<le> q \<and> q < p \<longrightarrow> \<not> listen q))"
      proof -
        have a: "port \<le> q \<longleftrightarrow> q = port \<or> port + 1 \<le> q" for q by arith
        show ?thesis using False by (auto simp: a)
      qed
      with "1.IH" [OF inrange False] step show ?thesis by simp
    qed
  qed
qed

lemma findFreePort_loop_Inl:
  "findFreePort_loop listen start = Inl e \<longleftrightarrow>
     (e = NoFreePorts \<and> (\<forall>q. start \<le> q \<and> q \<le> 65535 \<longrightarrow> \<not> listen q))"
proof (induction listen start rule: findFreePort_loop.induct)
  case (1 listen port)
  show ?case
  proof (cases "port \<le> 65535")
    case False
    then show ?thesis
      by (subst findFreePort_loop.simps) auto
  next
    case inrange: True
    show ?thesis
    proof (cases "listen port")
      case True
      with inrange show ?thesis
        by (subst findFreePort_loop.simps) auto
    next
      case False
      have step: "findFreePort_loop listen port = findFreePort_loop listen (port + 1)"
        using inrange False by (subst findFreePort_loop.simps) simp
      have a: "port \<le> q \<longleftrightarrow> q = port \<or> port + 1 \<le> q" for q by arith
      have "(\<forall>q. port + 1 \<le> q \<and> q \<le> 65535 \<longrightarrow> \<not> listen q)
            \<longleftrightarrow> (\<forall>q. port \<le> q \<and> q \<le> 65535 \<longrightarrow> \<not> listen q)"
        using False by (auto simp: a)
      with "1.IH" [OF inrange False] step show ?thesis by simp
    qed
  qed
qed

section \<open>Every run is one of the paths\<close>

lemma MkdirTemp_cases:
  obtains (Fails) e w' where "MkdirTemp sys w = (Inl e, w')"
        | (Succeeds) d w' where "MkdirTemp sys w = (Inr d, w')"
proof (cases "MkdirTemp sys w")
  case (Pair t w')
  with that show ?thesis by (cases t) auto
qed

lemma Exec_cases:
  obtains (Fails) b e w' where "Exec sys c w = ((b, Some e), w')"
        | (Succeeds) b w' where "Exec sys c w = ((b, None), w')"
proof (cases "Exec sys c w")
  case (Pair r w')
  obtain b x where r: "r = (b, x)" by (cases r)
  with Pair that show ?thesis by (cases x) auto
qed

lemmas CloneAndBuild_unfold = CloneAndBuild_def pipeline_def launch_def run_def Let_def

lemma outcome_CloneAndBuild: "outcome sys u w (CloneAndBuild sys u w)"
proof (cases rule: MkdirTemp_cases [of sys w])
  case (Fails e w0)
  then show ?thesis
    by (auto simp del: One_nat_def simp add: CloneAndBuild_unfold intro: outcome.intros)
next
  case (Succeeds d w0)
  note mk = this
  show ?thesis
  proof (cases rule: Exec_cases [of sys "GitClone u d" w0])
    case (Fails b1 e w1)
    with mk show ?thesis
      by (auto simp del: One_nat_def simp add: CloneAndBuild_unfold intro: outcome.intros)
  next
    case (Succeeds b1 w1)
    note clone = this
    show ?thesis
    proof (cases "IsNotExist sys (filepath_Join d ''Dockerfile'') w1")
      case True
      with mk clone show ?thesis
        by (auto simp del: One_nat_def simp add: CloneAndBuild_unfold intro: outcome.intros)
    next
      case False
      note dockerfile = this
      show ?thesis
      proof (cases rule: Exec_cases [of sys "GitRevParse d" w1])
        case (Fails hash e w2)
        with mk clone dockerfile show ?thesis
          by (auto simp del: One_nat_def simp add: CloneAndBuild_unfold intro: outcome.intros)
      next
        case (Succeeds hash w2)
        note revparse = this
        show ?thesis
        proof (cases rule: Exec_cases [of sys "DockerBuild (imageFullName u hash) d" w2])
          case (Fails b3 e w3)
          with mk clone dockerfile revparse show ?thesis
            by (auto simp del: One_nat_def simp add: CloneAndBuild_unfold intro: outcome.intros)
        next
          case (Succeeds b3 w3)
          note build = this
          show ?thesis
          proof (cases rule: Exec_cases [of sys "DockerPs (imageName u)" w3])
            case (Fails b4 e w4)
            with mk clone dockerfile revparse build show ?thesis
              by (auto simp del: One_nat_def simp add: CloneAndBuild_unfold intro: outcome.intros)
          next
            case (Succeeds b4 w4)
            note probe = this
            note built = mk clone dockerfile revparse build probe
            show ?thesis
            proof (cases "TrimSpace b4 = []")
              case True
              note absent = this
              show ?thesis
              proof (cases "findFreePort (Listen sys w4)")
                case (Inl e)
                with built absent show ?thesis
                  by (auto simp del: One_nat_def simp add: CloneAndBuild_unfold intro: outcome.intros)
              next
                case (Inr port)
                note alloc = this
                show ?thesis
                proof (cases rule: Exec_cases [of sys "DockerRun port (imageFullName u hash)" w4])
                  case (Fails b7 e w7)
                  with built absent alloc show ?thesis
                    by (auto simp del: One_nat_def simp add: CloneAndBuild_unfold intro: outcome.intros)
                next
                  case (Succeeds b7 w7)
                  with built absent alloc show ?thesis
                    by (auto simp del: One_nat_def simp add: CloneAndBuild_unfold intro: outcome.intros)
                qed
              qed
            next
              case False
              note present = this
              show ?thesis
              proof (cases rule: Exec_cases [of sys "DockerPort (TrimSpace b4)" w4])
                case (Fails b5 e w5)
                with built present show ?thesis
                  by (auto simp del: One_nat_def simp add: CloneAndBuild_unfold intro: outcome.intros)
              next
                case (Succeeds b5 w5)
                note portq = this
                show ?thesis
                proof (cases "index (strings_Split (TrimSpace b5) CHR '':'') 1")
                  case None
                  with built present portq show ?thesis
                    by (auto simp del: One_nat_def simp add: CloneAndBuild_unfold intro: outcome.intros)
                next
                  case (Some field)
                  note field = this
                  show ?thesis
                  proof (cases "Atoi field")
                    case None
                    with built present portq field show ?thesis
                      by (auto simp del: One_nat_def simp add: CloneAndBuild_unfold intro: outcome.intros)
                  next
                    case (Some port)
                    note port = this
                    show ?thesis
                    proof (cases rule: Exec_cases [of sys "DockerRm (TrimSpace b4)" w5])
                      case (Fails b6 e w6)
                      with built present portq field port show ?thesis
                        by (auto simp del: One_nat_def simp add: CloneAndBuild_unfold intro: outcome.intros)
                    next
                      case (Succeeds b6 w6)
                      note rm = this
                      show ?thesis
                      proof (cases rule: Exec_cases [of sys "DockerRun port (imageFullName u hash)" w6])
                        case (Fails b7 e w7)
                        with built present portq field port rm show ?thesis
                          by (auto simp del: One_nat_def simp add: CloneAndBuild_unfold intro: outcome.intros)
                      next
                        case (Succeeds b7 w7)
                        with built present portq field port rm show ?thesis
                          by (auto simp del: One_nat_def simp add: CloneAndBuild_unfold intro: outcome.intros)
                      qed
                    qed
                  qed
                qed
              qed
            qed
          qed
        qed
      qed
    qed
  qed
qed

lemma CloneAndBuild_outcome:
  "CloneAndBuild sys u w = (r, tr, w') \<Longrightarrow> outcome sys u w (r, tr, w')"
  using outcome_CloneAndBuild [of sys u w] by simp

lemma strings_Split_length: "length (strings_Split s sep) = Suc (count_list s sep)"
  by (induction s) (auto split: list.splits)

lemma index_Split_None: "index (strings_Split s sep) 1 = None \<longleftrightarrow> sep \<notin> set s"
  using count_list_0_iff [of s sep] by (auto simp: index_def strings_Split_length)

lemma index_Split_Some: "index (strings_Split s sep) 1 = Some f \<Longrightarrow> sep \<in> set s"
  using index_Split_None [of s sep] by auto

lemma strings_Split_no_sep: "sep \<notin> set s \<Longrightarrow> strings_Split s sep = [s]"
  by (induction s) auto

section \<open>The host's tools\<close>

lemma TrimSpace_empty: "TrimSpace [] = []"
  by (simp add: TrimSpace_def TrimLeftSpace.simps TrimRightSpace.simps)

lemma host_MkdirTemp_containers:
  "host_MkdirTemp h = (t, h') \<Longrightarrow> containers h' = containers h \<and> nextID h' = nextID h"
  by (auto simp: host_MkdirTemp_def split: sum.splits)

lemma host_GitClone:
  "host_Exec (GitClone u d) h = ((b, None), h') \<Longrightarrow>
     containers h' = containers h \<and> nextID h' = nextID h"
  by (auto simp: host_Exec_def split: option.splits)

lemma host_GitRevParse:
  "host_Exec (GitRevParse d) h = ((b, None), h') \<Longrightarrow> h' = h"
  by (auto simp: host_Exec_def split: option.splits)

lemma host_DockerBuild:
  "host_Exec (DockerBuild t d) h = ((b, None), h') \<Longrightarrow> h' = h"
  by (auto simp: host_Exec_def split: option.splits)

lemma host_DockerPs:
  "host_Exec (DockerPs n) h = ((b, None), h') \<Longrightarrow>
     h' = h \<and> b = concat (map (\<lambda>c. ID c @ [CHR 0x0A]) (filter (ancestorIs n) (containers h)))"
  by (auto simp: host_Exec_def split: option.splits)

lemma host_DockerRun:
  "host_Exec (DockerRun p ref) h = ((b, None), h') \<Longrightarrow>
     host_Listen h p
     \<and> h' = h\<lparr>containers := containers h @ [\<lparr>ID = nextID h, Image = ref, HostPort = p\<rparr>]\<rparr>"
  by (auto simp: host_Exec_def split: option.splits if_splits)

lemma host_RemoveAll_containers: "containers (snd (host_RemoveAll d h)) = containers h"
  by (simp add: host_RemoveAll_def)

lemma host_RemoveAll_removes:
  "fst (host_RemoveAll d h) = None \<Longrightarrow> \<not> inDirs d (snd (host_RemoveAll d h))"
  by (simp add: host_RemoveAll_def inDirs_def split: if_splits)

text \<open>
  The probe of the pipeline does not report the containers of the images the pipeline
  builds: the probe asks for the name without a tag, that is for the tag \<open>latest\<close>, and
  the images are tagged with their revision.
\<close>

lemma probe_misses_revision_images:
  assumes "TrimSpace b \<noteq> ''latest''"
  shows "\<not> ancestorIs (imageName u) \<lparr>ID = i, Image = imageFullName u b, HostPort = p\<rparr>"
  using assms by (simp add: ancestorIs_def withDefaultTag_def imageFullName_def)

text \<open>
  When the probe reports nothing, a successful deploy removes no container: all that
  were running still are, and one more is.
\<close>

lemma deploy_keeps_unreported_instances:
  assumes none: "filter (ancestorIs (imageName u)) (containers h) = []"
      and ok: "CloneAndBuild host_sys u h = (Returns None, tr, h')"
  shows "\<exists>port b. containers h'
            = containers h @ [\<lparr>ID = nextID h, Image = imageFullName u b, HostPort = port\<rparr>]
          \<and> host_Listen h port"
  using CloneAndBuild_outcome [OF ok]
proof cases
  case (Replaced d w0 b1 w1 hash w2 b3 w3 b4 w4 b5 w5 field port b6 w6 b7 w7)
  note mk = host_MkdirTemp_containers [of h "Inr d" w0]
  note cl = host_GitClone [of u d w0 b1 w1]
  note rp = host_GitRevParse [of d w1 hash w2]
  note bd = host_DockerBuild [of "imageFullName u hash" d w2 b3 w3]
  note ps = host_DockerPs [of "imageName u" w3 b4 w4]
  from Replaced mk cl rp bd ps none have "b4 = []"
    by (simp add: host_sys_def)
  with Replaced show ?thesis by (simp add: TrimSpace_empty)
next
  case (Fresh d w0 b1 w1 hash w2 b3 w3 b4 w4 port b7 w7)
  note mk = host_MkdirTemp_containers [of h "Inr d" w0]
  note cl = host_GitClone [of u d w0 b1 w1]
  note rp = host_GitRevParse [of d w1 hash w2]
  note bd = host_DockerBuild [of "imageFullName u hash" d w2 b3 w3]
  note ps = host_DockerPs [of "imageName u" w3 b4 w4]
  note rn = host_DockerRun [of port "imageFullName u hash" w4 b7 w7]
  from Fresh mk cl rp bd ps have w4: "containers w4 = containers h" "nextID w4 = nextID h"
    by (simp_all add: host_sys_def)
  from Fresh rn w4 have "containers w7
      = containers h @ [\<lparr>ID = nextID h, Image = imageFullName u hash, HostPort = port\<rparr>]"
    and "host_Listen w4 port"
    by (simp_all add: host_sys_def)
  moreover from Fresh w4 have "bound w4 = bound h"
    using mk cl rp bd ps by (auto simp: host_sys_def host_MkdirTemp_def host_Exec_def split: sum.splits option.splits)
  ultimately show ?thesis
    using Fresh w4 by (auto simp: host_sys_def host_RemoveAll_containers host_Listen_def)
qed

section \<open>Reading a run\<close>

lemma trace_nth: "i < length (commands tr) \<Longrightarrow> (commands tr ! i, snd (tr ! i)) \<in> set tr"
  by (simp add: commands_def)

lemma Exec_succeeded:
  "snd (fst (Exec sys c w)) = None \<Longrightarrow>
     Exec sys c w = ((fst (fst (Exec sys c w)), None), snd (Exec sys c w))"
  by (simp add: prod_eq_iff)

lemma MkdirTemp_succeeded:
  "fst (MkdirTemp sys w) = Inr d \<Longrightarrow> MkdirTemp sys w = (Inr d, snd (MkdirTemp sys w))"
  by (simp add: prod_eq_iff)

lemma handleDeploy_ok:
  assumes "handleDeploy sys body w = (Returns resp, tr, w')" and "StatusCode resp = StatusOK"
  shows "\<exists>u. outcome sys u w (Returns None, tr, w')
           \<and> resp = \<lparr>StatusCode = StatusOK, Written = ''Repository successfully processed''\<rparr>"
  using assms
  by (auto simp: handleDeploy_def http_Error_def StatusOK_def StatusBadRequest_def
        StatusInternalServerError_def split: option.splits prod.splits result.splits
        dest: CloneAndBuild_outcome)

lemma built_reference:
  assumes "outcome sys u w (r, tr, w')"
      and "(GitRevParse d, x) \<in> set tr"
      and "(DockerBuild ref e, y) \<in> set tr"
  shows "ref = imageFullName u (fst (fst (Exec sys (GitRevParse d) x)))"
  using assms by cases auto

lemma launched_reference:
  assumes "outcome sys u w (r, tr, w')"
      and "(GitRevParse d, x) \<in> set tr"
      and "(DockerRun p ref, y) \<in> set tr"
  shows "ref = imageFullName u (fst (fst (Exec sys (GitRevParse d) x)))"
  using assms by cases auto

section \<open>The claims of the specification\<close>

subsection \<open>C1: a deploy with no prior instance\<close>

text \<open>
  Claim C1, as the code has it. When the handler answers 200 and the probe of the run
  printed nothing but white space (no prior instance), the last command of the run is
  \<open>docker run\<close> on a port of 3000 .. 65535 on which a bind succeeded in the world the
  probe left, while it failed on every lower port from 3000 on; no other port is given to
  \<open>docker run\<close>; and the response is the fixed text "Repository successfully
  processed" with status 200, whatever the port.
\<close>

theorem fresh_deploy_binds_lowest_free_port:
  assumes ok: "handleDeploy sys body w = (Returns resp, tr, w')"
      and status: "StatusCode resp = StatusOK"
      and probe: "(DockerPs n, wp) \<in> set tr"
      and absent: "TrimSpace (fst (fst (Exec sys (DockerPs n) wp))) = []"
  shows "\<exists>port ref wl. last tr = (DockerRun port ref, wl)
           \<and> wl = snd (Exec sys (DockerPs n) wp)
           \<and> 3000 \<le> port \<and> port \<le> 65535 \<and> Listen sys wl port
           \<and> (\<forall>q. 3000 \<le> q \<and> q < port \<longrightarrow> \<not> Listen sys wl q)
           \<and> (\<forall>p r x. (DockerRun p r, x) \<in> set tr \<longrightarrow> p = port)
           \<and> resp = \<lparr>StatusCode = StatusOK, Written = ''Repository successfully processed''\<rparr>"
proof -
  from handleDeploy_ok [OF ok status] obtain u where
    o: "outcome sys u w (Returns None, tr, w')" and
    resp: "resp = \<lparr>StatusCode = StatusOK, Written = ''Repository successfully processed''\<rparr>"
    by blast
  from o probe absent resp show ?thesis
    by cases (auto simp: findFreePort_def findFreePort_loop_Inr)
qed

theorem fresh_deploy_binds_lowest_free_port_witness:
  "\<exists>wl. last (fst (snd (handleDeploy host_sys body0 hostBusy)))
            = (DockerRun 3002 ''github.com/user/repo:a1b2c3d'', wl)
        \<and> host_Listen wl 3002 \<and> \<not> host_Listen wl 3000 \<and> \<not> host_Listen wl 3001"
proof -
  let ?run = "handleDeploy host_sys body0 hostBusy"
  let ?tr = "fst (snd ?run)"
  let ?resp = "\<lparr>StatusCode = 200, Written = ''Repository successfully processed''\<rparr>"
  have "fst ?run = Returns ?resp" by code_simp
  then have ok: "?run = (Returns ?resp, ?tr, snd (snd ?run))" by (simp add: prod_eq_iff)
  have status: "StatusCode ?resp = StatusOK" by (simp add: StatusOK_def)
  have "commands ?tr ! 3 = DockerPs ''github.com/user/repo''" by code_simp
  moreover have "3 < length (commands ?tr)" by code_simp
  ultimately have probe: "(DockerPs ''github.com/user/repo'', snd (?tr ! 3)) \<in> set ?tr"
    using trace_nth [of 3 ?tr] by simp
  have absent: "TrimSpace (fst (fst (Exec host_sys (DockerPs ''github.com/user/repo'') (snd (?tr ! 3))))) = []"
    by code_simp
  from fresh_deploy_binds_lowest_free_port [OF ok status probe absent]
  obtain port ref wl where run: "last ?tr = (DockerRun port ref, wl)"
    and free: "3000 \<le> port" "Listen host_sys wl port" "\<forall>q. 3000 \<le> q \<and> q < port \<longrightarrow> \<not> Listen host_sys wl q"
    by blast
  have "fst (last ?tr) = DockerRun 3002 ''github.com/user/repo:a1b2c3d''" by code_simp
  with run have port: "port = 3002" and ref: "ref = ''github.com/user/repo:a1b2c3d''" by simp_all
  from free port have "host_Listen wl 3002" "\<not> host_Listen wl 3000" "\<not> host_Listen wl 3001"
    by (simp_all add: host_sys_def)
  with run port ref show ?thesis by blast
qed

text \<open>
  The claim as the specification states it fails: two deploys that bind different ports
  (3000, and 3001 when 3000 is taken) are answered with the same response, whose body
  names no port and no image.
\<close>

theorem response_does_not_report_port:
  "fst (handleDeploy host_sys body0 host0)
     = Returns \<lparr>StatusCode = 200, Written = ''Repository successfully processed''\<rparr>
   \<and> fst (handleDeploy host_sys body0 hostTaken) = fst (handleDeploy host_sys body0 host0)
   \<and> fst (last (fst (snd (handleDeploy host_sys body0 host0))))
       = DockerRun 3000 ''github.com/user/repo:a1b2c3d''
   \<and> fst (last (fst (snd (handleDeploy host_sys body0 hostTaken))))
       = DockerRun 3001 ''github.com/user/repo:a1b2c3d''"
  by code_simp

subsection \<open>C2: requests that are rejected\<close>

text \<open>
  Claim C2, as the code has it. A request whose body the decoder rejects, or whose
  \<open>url\<close> field \<open>url.Parse\<close> rejects, is answered with status 400; no command is run and
  the world is left as it was (not even the workspace is created).
\<close>

theorem malformed_request_rejected_without_commands:
  assumes "decodePayload body = None
         \<or> (\<exists>payload. decodePayload body = Some payload \<and> url_Parse (URL payload) = None)"
  shows "\<exists>msg. handleDeploy sys body w = (Returns (http_Error msg StatusBadRequest), [], w)"
  using assms by (auto simp: handleDeploy_def)

theorem malformed_request_rejected_without_commands_witness:
  "(\<exists>msg. fst (handleDeploy host_sys bodyNoScheme host0) = Returns (http_Error msg StatusBadRequest))
   \<and> fst (snd (handleDeploy host_sys bodyNoScheme host0)) = []
   \<and> snd (snd (handleDeploy host_sys bodyNoScheme host0)) = host0"
proof -
  have "decodePayload bodyNoScheme = Some \<lparr>URL = ''://github.com/user/repo''\<rparr>" by code_simp
  moreover have "url_Parse ''://github.com/user/repo'' = None" by code_simp
  ultimately have "\<exists>payload. decodePayload bodyNoScheme = Some payload \<and> url_Parse (URL payload) = None"
    by simp
  then have "\<exists>msg. handleDeploy host_sys bodyNoScheme host0
                = (Returns (http_Error msg StatusBadRequest), [], host0)"
    by (intro malformed_request_rejected_without_commands) simp
  then show ?thesis by auto
qed

text \<open>
  The claim as the specification states it fails on its own example: \<open>url.Parse\<close>
  accepts \<open>not a url\<close> as a relative reference (a path with spaces), so the pipeline
  runs: on a host where the clone of it fails, \<open>git clone\<close> is started and the answer is
  500.
\<close>

theorem not_a_url_runs_the_pipeline:
  "decodePayload bodyNotAUrl = Some \<lparr>URL = ''not a url''\<rparr>
   \<and> url_Parse ''not a url'' = Some (emptyURL\<lparr>Path := ''not a url'', RawPath := ''not a url''\<rparr>)
   \<and> fst (handleDeploy host_sys bodyNotAUrl hostUnreachable)
       = Returns (http_Error ''Internal server error'' 500)
   \<and> commands (fst (snd (handleDeploy host_sys bodyNotAUrl hostUnreachable)))
       = [GitClone (emptyURL\<lparr>Path := ''not a url'', RawPath := ''not a url''\<rparr>) ''/tmp/repo-1'']"
  by code_simp

subsection \<open>C3: a deploy while an earlier instance is running\<close>

text \<open>
  Claim C3 fails on the code. The probe is given the name of the image without a tag,
  which the runtime reads as the tag \<open>latest\<close>, while the pipeline tags every image with
  its revision; the instance an earlier deploy started is therefore not reported. On a
  host where that instance (of revision \<open>0000000\<close>) is running on port 3005, the deploy
  of revision \<open>a1b2c3d\<close> succeeds by the path for no prior instance: nothing is removed,
  the new container is started on the fresh port 3000, and two instances are running
  afterwards, the old one still on 3005.
\<close>

theorem earlier_instance_is_not_replaced:
  "fst (CloneAndBuild host_sys repo0 hostEarlier) = Returns None
   \<and> commands (fst (snd (CloneAndBuild host_sys repo0 hostEarlier)))
       = [GitClone repo0 ''/tmp/repo-1'', GitRevParse ''/tmp/repo-1'',
          DockerBuild ''github.com/user/repo:a1b2c3d'' ''/tmp/repo-1'',
          DockerPs ''github.com/user/repo'',
          DockerRun 3000 ''github.com/user/repo:a1b2c3d'']
   \<and> containers (snd (snd (CloneAndBuild host_sys repo0 hostEarlier)))
       = [\<lparr>ID = ''abc123'', Image = ''github.com/user/repo:0000000'', HostPort = 3005\<rparr>,
          \<lparr>ID = ''c0ffee'', Image = ''github.com/user/repo:a1b2c3d'', HostPort = 3000\<rparr>]"
  by code_simp

subsection \<open>C4: a repository without a Dockerfile\<close>

text \<open>
  Claim C4. When the workspace was created and the clone succeeded, \<open>CloneAndBuild\<close>
  returns the error "dockerfile not found in repository" exactly when the Dockerfile
  does not exist at the root of the workspace; and then \<open>git clone\<close> is the only command
  the run has started: nothing was built.
\<close>

theorem missing_Dockerfile_aborts_before_build:
  assumes mk: "MkdirTemp sys w = (Inr d, w0)"
      and clone: "Exec sys (GitClone u d) w0 = ((b, None), w1)"
  shows "(IsNotExist sys (filepath_Join d ''Dockerfile'') w1 \<longleftrightarrow>
            fst (CloneAndBuild sys u w) = Returns (Some DockerfileNotFound))
       \<and> (IsNotExist sys (filepath_Join d ''Dockerfile'') w1 \<longrightarrow>
            CloneAndBuild sys u w =
              (Returns (Some DockerfileNotFound), [(GitClone u d, w0)], snd (RemoveAll sys d w1)))"
proof -
  obtain r tr w' where run: "CloneAndBuild sys u w = (r, tr, w')"
    by (cases "CloneAndBuild sys u w")
  show ?thesis
    using CloneAndBuild_outcome [OF run] mk clone unfolding run
    by cases auto
qed

theorem missing_Dockerfile_aborts_before_build_witness:
  "fst (CloneAndBuild host_sys repo0 hostNoDockerfile) = Returns (Some DockerfileNotFound)
   \<and> commands (fst (snd (CloneAndBuild host_sys repo0 hostNoDockerfile)))
       = [GitClone repo0 ''/tmp/repo-1'']"
proof -
  let ?w0 = "snd (MkdirTemp host_sys hostNoDockerfile)"
  let ?clone = "Exec host_sys (GitClone repo0 ''/tmp/repo-1'') ?w0"
  have "fst (MkdirTemp host_sys hostNoDockerfile) = Inr ''/tmp/repo-1''" by code_simp
  then have mk: "MkdirTemp host_sys hostNoDockerfile = (Inr ''/tmp/repo-1'', ?w0)"
    by (rule MkdirTemp_succeeded)
  have "snd (fst ?clone) = None" by code_simp
  then have clone: "?clone = ((fst (fst ?clone), None), snd ?clone)"
    by (rule Exec_succeeded)
  have missing: "IsNotExist host_sys (filepath_Join ''/tmp/repo-1'' ''Dockerfile'') (snd ?clone)"
    by code_simp
  from missing_Dockerfile_aborts_before_build [OF mk clone] missing show ?thesis
    by (simp add: commands_def)
qed

subsection \<open>C5: the name of the image\<close>

text \<open>
  Claim C5. Take two runs of \<open>CloneAndBuild\<close> for the same URL, on any two hosts, that
  both reach the build. If \<open>git rev-parse --short HEAD\<close> printed the same revision in
  both (the same text once the white space around it is removed), then both builds were
  given the same image reference: the URL's host, its path, a colon and that revision.
  Every \<open>docker run\<close> of either run is given that same reference.
\<close>

theorem image_reference_determined_by_url_and_revision:
  assumes run1: "CloneAndBuild sys1 u w1 = (r1, tr1, w1')"
      and run2: "CloneAndBuild sys2 u w2 = (r2, tr2, w2')"
      and rev1: "(GitRevParse d1, x1) \<in> set tr1"
      and rev2: "(GitRevParse d2, x2) \<in> set tr2"
      and same: "TrimSpace (fst (fst (Exec sys1 (GitRevParse d1) x1)))
               = TrimSpace (fst (fst (Exec sys2 (GitRevParse d2) x2)))"
      and build1: "(DockerBuild ref1 e1, y1) \<in> set tr1"
      and build2: "(DockerBuild ref2 e2, y2) \<in> set tr2"
  shows "ref2 = ref1
       \<and> ref1 = Host u @ Path u @ '':'' @ TrimSpace (fst (fst (Exec sys1 (GitRevParse d1) x1)))
       \<and> (\<forall>p ref y. (DockerRun p ref, y) \<in> set tr1 \<longrightarrow> ref = ref1)
       \<and> (\<forall>p ref y. (DockerRun p ref, y) \<in> set tr2 \<longrightarrow> ref = ref2)"
proof -
  note o1 = CloneAndBuild_outcome [OF run1] and o2 = CloneAndBuild_outcome [OF run2]
  have "ref1 = imageFullName u (fst (fst (Exec sys1 (GitRevParse d1) x1)))"
    by (rule built_reference [OF o1 rev1 build1])
  moreover have "ref2 = imageFullName u (fst (fst (Exec sys2 (GitRevParse d2) x2)))"
    by (rule built_reference [OF o2 rev2 build2])
  moreover have "ref = imageFullName u (fst (fst (Exec sys1 (GitRevParse d1) x1)))"
    if "(DockerRun p ref, y) \<in> set tr1" for p ref y
    by (rule launched_reference [OF o1 rev1 that])
  moreover have "ref = imageFullName u (fst (fst (Exec sys2 (GitRevParse d2) x2)))"
    if "(DockerRun p ref, y) \<in> set tr2" for p ref y
    by (rule launched_reference [OF o2 rev2 that])
  ultimately show ?thesis
    using same by (simp add: imageFullName_def imageName_def)
qed

theorem image_reference_determined_by_url_and_revision_witness:
  "(DockerBuild ''github.com/user/repo:a1b2c3d'' ''/tmp/repo-1'',
      snd (fst (snd (CloneAndBuild host_sys repo0 host0)) ! 2))
     \<in> set (fst (snd (CloneAndBuild host_sys repo0 host0)))
   \<and> (DockerBuild ''github.com/user/repo:a1b2c3d'' ''/tmp/repo-2'',
      snd (fst (snd (CloneAndBuild host_sys repo0 hostOther)) ! 2))
     \<in> set (fst (snd (CloneAndBuild host_sys repo0 hostOther)))
   \<and> ''github.com/user/repo:a1b2c3d'' = Host repo0 @ Path repo0 @ '':'' @ ''a1b2c3d''"
proof -
  let ?run1 = "CloneAndBuild host_sys repo0 host0"
  let ?run2 = "CloneAndBuild host_sys repo0 hostOther"
  let ?tr1 = "fst (snd ?run1)"
  let ?tr2 = "fst (snd ?run2)"
  let ?ref = "''github.com/user/repo:a1b2c3d''"
  have run1: "?run1 = (fst ?run1, ?tr1, snd (snd ?run1))" by simp
  have run2: "?run2 = (fst ?run2, ?tr2, snd (snd ?run2))" by simp
  have len1: "2 < length (commands ?tr1)" by code_simp
  have len2: "2 < length (commands ?tr2)" by code_simp
  have "commands ?tr1 ! 1 = GitRevParse ''/tmp/repo-1''" by code_simp
  with len1 have rev1: "(GitRevParse ''/tmp/repo-1'', snd (?tr1 ! 1)) \<in> set ?tr1"
    using trace_nth [of 1 ?tr1] by simp
  have "commands ?tr2 ! 1 = GitRevParse ''/tmp/repo-2''" by code_simp
  with len2 have rev2: "(GitRevParse ''/tmp/repo-2'', snd (?tr2 ! 1)) \<in> set ?tr2"
    using trace_nth [of 1 ?tr2] by simp
  have out1: "TrimSpace (fst (fst (Exec host_sys (GitRevParse ''/tmp/repo-1'') (snd (?tr1 ! 1)))))
                = ''a1b2c3d''"
    by code_simp
  have out2: "TrimSpace (fst (fst (Exec host_sys (GitRevParse ''/tmp/repo-2'') (snd (?tr2 ! 1)))))
                = ''a1b2c3d''"
    by code_simp
  have "commands ?tr1 ! 2 = DockerBuild ?ref ''/tmp/repo-1''" by code_simp
  with len1 have build1: "(DockerBuild ?ref ''/tmp/repo-1'', snd (?tr1 ! 2)) \<in> set ?tr1"
    using trace_nth [of 2 ?tr1] by simp
  have "commands ?tr2 ! 2 = DockerBuild ?ref ''/tmp/repo-2''" by code_simp
  with len2 have build2: "(DockerBuild ?ref ''/tmp/repo-2'', snd (?tr2 ! 2)) \<in> set ?tr2"
    using trace_nth [of 2 ?tr2] by simp
  from image_reference_determined_by_url_and_revision
         [OF run1 run2 rev1 rev2 _ build1 build2] out1 out2
  have name: "?ref = Host repo0 @ Path repo0 @ '':'' @ ''a1b2c3d''"
    by simp
  show ?thesis
    by (rule conjI [OF build1 conjI [OF build2 name]])
qed

subsection \<open>C6: the port allocator\<close>

text \<open>
  Claim C6. Whatever the state of the host's ports, \<open>findFreePort\<close> scans upwards from
  3000 and returns the lowest port of 3000 .. 65535 on which a bind succeeds; it fails
  exactly when a bind succeeds on no port of the range, and the only error it has is
  the one of this exhaustion, "no free ports found".
\<close>

theorem findFreePort_lowest_free_or_exhausted:
  "(findFreePort listen = Inr p \<longleftrightarrow>
      3000 \<le> p \<and> p \<le> 65535 \<and> listen p \<and> (\<forall>q. 3000 \<le> q \<and> q < p \<longrightarrow> \<not> listen q))
   \<and> (findFreePort listen = Inl e \<longleftrightarrow>
      e = NoFreePorts \<and> (\<forall>q. 3000 \<le> q \<and> q \<le> 65535 \<longrightarrow> \<not> listen q))"
  unfolding findFreePort_def
  using findFreePort_loop_Inr [of listen 3000 p] findFreePort_loop_Inl [of listen 3000 e]
  by blast

theorem findFreePort_lowest_free_or_exhausted_witness:
  "findFreePort (\<lambda>p. p \<noteq> 3000 \<and> p \<noteq> 3001) = Inr 3002
   \<and> findFreePort (\<lambda>p. False) = Inl NoFreePorts"
proof -
  have low: "\<forall>q::int. 3000 \<le> q \<and> q < 3002 \<longrightarrow> \<not> (q \<noteq> 3000 \<and> q \<noteq> 3001)"
    by arith
  have "findFreePort (\<lambda>p. p \<noteq> 3000 \<and> p \<noteq> 3001) = Inr 3002"
    using findFreePort_lowest_free_or_exhausted [of "\<lambda>p. p \<noteq> 3000 \<and> p \<noteq> 3001" 3002] low
    by simp
  moreover have "findFreePort (\<lambda>p. False) = Inl NoFreePorts"
    using findFreePort_lowest_free_or_exhausted [of "\<lambda>p. False" _ NoFreePorts]
    by simp
  ultimately show ?thesis by simp
qed

subsection \<open>C7: the workspace\<close>

text \<open>
  Claim C7, as the code has it. Once \<open>os.MkdirTemp\<close> has created the workspace, every
  run of \<open>CloneAndBuild\<close>, whether it returns \<open>nil\<close>, returns an error or panics, has
  started at least one command, and the world it leaves is the one \<open>os.RemoveAll\<close> of
  the workspace made of the world the last command left: the removal is the last thing
  the call does, and the error of the removal is not looked at. So, for any way
  \<open>present\<close> of telling that a directory exists for which a removal without an error
  leaves the directory absent, the workspace is absent when the call returns if that
  last removal returned no error. And when \<open>git clone\<close> fails, the run returns the
  clone's error with \<open>git clone\<close> as its only command: the build is not reached.
\<close>

theorem workspace_removal_is_last_and_unchecked:
  assumes mk: "MkdirTemp sys w = (Inr d, w0)"
      and run: "CloneAndBuild sys u w = (r, tr, w')"
      and removal: "\<And>x. fst (RemoveAll sys d x) = None \<Longrightarrow> \<not> present d (snd (RemoveAll sys d x))"
  shows "tr \<noteq> []
       \<and> w' = snd (RemoveAll sys d (afterLast sys tr))
       \<and> (fst (RemoveAll sys d (afterLast sys tr)) = None \<longrightarrow> \<not> present d w')
       \<and> (\<forall>b e w1. Exec sys (GitClone u d) w0 = ((b, Some e), w1) \<longrightarrow>
            r = Returns (Some (CloneFailed e b)) \<and> tr = [(GitClone u d, w0)]
            \<and> w' = snd (RemoveAll sys d w1))"
proof -
  have started: "tr \<noteq> []" and left: "w' = snd (RemoveAll sys d (afterLast sys tr))"
    using CloneAndBuild_outcome [OF run] mk
    by (cases, simp_all add: afterLast_def)+
  have absent: "fst (RemoveAll sys d (afterLast sys tr)) = None \<longrightarrow> \<not> present d w'"
  proof
    assume "fst (RemoveAll sys d (afterLast sys tr)) = None"
    from removal [OF this] left show "\<not> present d w'" by simp
  qed
  have fetch: "\<forall>b e w1. Exec sys (GitClone u d) w0 = ((b, Some e), w1) \<longrightarrow>
            r = Returns (Some (CloneFailed e b)) \<and> tr = [(GitClone u d, w0)]
            \<and> w' = snd (RemoveAll sys d w1)"
    using CloneAndBuild_outcome [OF run] mk
    by cases auto
  from started left absent fetch show ?thesis by blast
qed

theorem workspace_removal_is_last_and_unchecked_witness:
  "inDirs ''/tmp/repo-1'' (snd (MkdirTemp host_sys hostUnreachable))
   \<and> \<not> inDirs ''/tmp/repo-1'' (snd (snd (CloneAndBuild host_sys repo0 hostUnreachable)))
   \<and> fst (CloneAndBuild host_sys repo0 hostUnreachable)
       = Returns (Some (CloneFailed ''exit status 128'' (''fatal: repository not found'' @ [CHR 0x0A])))
   \<and> commands (fst (snd (CloneAndBuild host_sys repo0 hostUnreachable)))
       = [GitClone repo0 ''/tmp/repo-1'']"
proof -
  let ?run = "CloneAndBuild host_sys repo0 hostUnreachable"
  let ?w0 = "snd (MkdirTemp host_sys hostUnreachable)"
  let ?clone = "Exec host_sys (GitClone repo0 ''/tmp/repo-1'') ?w0"
  have "fst (MkdirTemp host_sys hostUnreachable) = Inr ''/tmp/repo-1''" by code_simp
  then have mk: "MkdirTemp host_sys hostUnreachable = (Inr ''/tmp/repo-1'', ?w0)"
    by (rule MkdirTemp_succeeded)
  have run: "?run = (fst ?run, fst (snd ?run), snd (snd ?run))" by simp
  have removal: "\<not> inDirs ''/tmp/repo-1'' (snd (RemoveAll host_sys ''/tmp/repo-1'' x))"
    if "fst (RemoveAll host_sys ''/tmp/repo-1'' x) = None" for x
    using that host_RemoveAll_removes [of "''/tmp/repo-1''" x] by (simp add: host_sys_def)
  have "fst ?clone = (''fatal: repository not found'' @ [CHR 0x0A], Some ''exit status 128'')"
    by code_simp
  then have clone: "?clone = ((''fatal: repository not found'' @ [CHR 0x0A], Some ''exit status 128''), snd ?clone)"
    by (simp add: prod_eq_iff)
  have created: "inDirs ''/tmp/repo-1'' ?w0" by code_simp
  have removed: "fst (RemoveAll host_sys ''/tmp/repo-1'' (afterLast host_sys (fst (snd ?run)))) = None"
    by code_simp
  note main = workspace_removal_is_last_and_unchecked [where present = inDirs, OF mk run removal]
  from main removed have gone: "\<not> inDirs ''/tmp/repo-1'' (snd (snd ?run))" by blast
  from main clone have "fst ?run = Returns (Some (CloneFailed ''exit status 128'' (''fatal: repository not found'' @ [CHR 0x0A])))"
    and "fst (snd ?run) = [(GitClone repo0 ''/tmp/repo-1'', ?w0)]"
    by blast+
  with created gone show ?thesis by (simp add: commands_def)
qed

text \<open>
  The claim as the specification states it fails: when \<open>os.RemoveAll\<close> fails, its error
  is dropped and the workspace stays. On a host where the process cannot remove the
  workspace, the deploy succeeds, and the directory and the files of the clone are still
  there when \<open>CloneAndBuild\<close> has returned \<open>nil\<close>.
\<close>

theorem workspace_left_when_removal_fails:
  "\<not> inDirs ''/tmp/repo-1'' hostStuck
   \<and> fst (CloneAndBuild host_sys repo0 hostStuck) = Returns None
   \<and> inDirs ''/tmp/repo-1'' (snd (snd (CloneAndBuild host_sys repo0 hostStuck)))
   \<and> files (snd (snd (CloneAndBuild host_sys repo0 hostStuck)))
       = [''/tmp/repo-1/Dockerfile'', ''/tmp/repo-1/main.go'']"
  by code_simp

subsection \<open>C8: what the probe reports\<close>

text \<open>
  Claim C8, as the code has it. When the probe succeeds and prints more than white
  space, the identifier the run uses is the whole of that output without the white space
  around it: the port query that follows is for that text, and no port query and no
  removal of the run is for anything else. No line of the output is singled out.
\<close>

theorem probe_output_is_the_identifier:
  assumes run: "CloneAndBuild sys u w = (r, tr, w')"
      and probe: "(DockerPs n, wp) \<in> set tr"
      and out: "Exec sys (DockerPs n) wp = ((b, None), wq)"
      and found: "TrimSpace b \<noteq> []"
  shows "(DockerPort (TrimSpace b), wq) \<in> set tr
       \<and> (\<forall>cid x. (DockerPort cid, x) \<in> set tr \<longrightarrow> cid = TrimSpace b)
       \<and> (\<forall>cid x. (DockerRm cid, x) \<in> set tr \<longrightarrow> cid = TrimSpace b)"
  using CloneAndBuild_outcome [OF run] probe out found
  by cases auto

theorem probe_output_is_the_identifier_witness:
  "DockerPort ''abc123'' \<in> set (commands (fst (snd (CloneAndBuild host_sys repo0 host1))))"
proof -
  let ?run = "CloneAndBuild host_sys repo0 host1"
  let ?tr = "fst (snd ?run)"
  let ?ps = "Exec host_sys (DockerPs ''github.com/user/repo'') (snd (?tr ! 3))"
  have run: "?run = (fst ?run, ?tr, snd (snd ?run))" by simp
  have "commands ?tr ! 3 = DockerPs ''github.com/user/repo''" by code_simp
  moreover have "3 < length (commands ?tr)" by code_simp
  ultimately have probe: "(DockerPs ''github.com/user/repo'', snd (?tr ! 3)) \<in> set ?tr"
    using trace_nth [of 3 ?tr] by simp
  have "snd (fst ?ps) = None" by code_simp
  then have out: "?ps = ((fst (fst ?ps), None), snd ?ps)" by (rule Exec_succeeded)
  have id: "TrimSpace (fst (fst ?ps)) = ''abc123''" by code_simp
  then have found: "TrimSpace (fst (fst ?ps)) \<noteq> []" by simp
  from probe_output_is_the_identifier [OF run probe out found] id
  have "(DockerPort ''abc123'', snd ?ps) \<in> set ?tr" by simp
  then show ?thesis unfolding commands_def by force
qed

text \<open>
  The claim as the specification states it fails: with two running instances the probe
  prints two lines, and the port query is for both lines as one identifier, not for the
  first of them; the runtime knows no such container and the run ends with that error.
\<close>

theorem several_instances_first_not_chosen:
  "fst (fst (host_Exec (DockerPs ''github.com/user/repo'') host2))
     = ''abc123'' @ [CHR 0x0A] @ ''def456'' @ [CHR 0x0A]
   \<and> commands (fst (snd (CloneAndBuild host_sys repo0 host2)))
     = [GitClone repo0 ''/tmp/repo-1'', GitRevParse ''/tmp/repo-1'',
        DockerBuild ''github.com/user/repo:a1b2c3d'' ''/tmp/repo-1'',
        DockerPs ''github.com/user/repo'',
        DockerPort (''abc123'' @ [CHR 0x0A] @ ''def456'')]
   \<and> DockerPort ''abc123'' \<notin> set (commands (fst (snd (CloneAndBuild host_sys repo0 host2))))
   \<and> fst (CloneAndBuild host_sys repo0 host2)
     = Returns (Some (ContainerPortFailed ''exit status 1''
         (''Error: No such container: '' @ ''abc123'' @ [CHR 0x0A] @ ''def456'' @ [CHR 0x0A])))"
  by code_simp

subsection \<open>C9: the startup configuration\<close>

text \<open>
  Claim C9. \<open>parseJsonConfig\<close> returns the default port 80 without an error when the
  file does not exist; it returns what the decoder stored, without an error, when the
  file opens and decodes; it returns an error exactly when the file cannot be opened for
  another reason or the decoder fails on it. The decoder starts from the default, stores
  an integer \<open>http_port\<close>, and skips every other member, so that a file without the
  option yields the default.
\<close>

theorem parseJsonConfig_default_and_errors:
  "(os_Open path = NotExist e \<longrightarrow> parseJsonConfig os_Open path = (\<lparr>HTTPPort = 80\<rparr>, None))
   \<and> (os_Open path = Opened file \<and> decodeConfig \<lparr>HTTPPort = 80\<rparr> file = Some config \<longrightarrow>
        parseJsonConfig os_Open path = (config, None))
   \<and> (snd (parseJsonConfig os_Open path) \<noteq> None \<longleftrightarrow>
        (\<exists>err. os_Open path = OpenError err)
        \<or> (\<exists>f. os_Open path = Opened f \<and> decodeConfig \<lparr>HTTPPort = 80\<rparr> f = None))
   \<and> (- (2 ^ 63) \<le> n \<and> n \<le> 2 ^ 63 - 1 \<longrightarrow>
        decodeConfig \<lparr>HTTPPort = 80\<rparr> (Some (JObject [(''http_port'', JNumber (IntLit n))]))
          = Some \<lparr>HTTPPort = n\<rparr>)
   \<and> (list_all (\<lambda>m. \<not> matchesField (fst m) ''http_port'') members \<longrightarrow>
        decodeConfig \<lparr>HTTPPort = 80\<rparr> (Some (JObject members)) = Some \<lparr>HTTPPort = 80\<rparr>)"
proof -
  let ?default = "\<lparr>HTTPPort = 80\<rparr>"
  have skip: "foldl storeConfigMember (c, f) members = (c, f)"
    if "list_all (\<lambda>m. \<not> matchesField (fst m) ''http_port'') members" for c f
    using that by (induction members) auto
  have known: "matchesField ''http_port'' ''http_port''" by (simp add: matchesField_def)
  have absent: "parseJsonConfig os_Open path = (?default, None)" if "os_Open path = NotExist e"
    using that by (simp add: parseJsonConfig_def)
  have decoded: "parseJsonConfig os_Open path = (config, None)"
    if "os_Open path = Opened file" "decodeConfig ?default file = Some config"
    using that by (simp add: parseJsonConfig_def)
  have failure: "snd (parseJsonConfig os_Open path) \<noteq> None \<longleftrightarrow>
        (\<exists>err. os_Open path = OpenError err)
        \<or> (\<exists>f. os_Open path = Opened f \<and> decodeConfig ?default f = None)"
  proof (cases "os_Open path")
    case (NotExist e)
    then show ?thesis by (simp add: parseJsonConfig_def)
  next
    case (OpenError e)
    then show ?thesis by (simp add: parseJsonConfig_def)
  next
    case (Opened f)
    then show ?thesis
      by (cases "decodeConfig ?default f") (simp_all add: parseJsonConfig_def)
  qed
  have stored: "decodeConfig ?default (Some (JObject [(''http_port'', JNumber (IntLit n))]))
          = Some \<lparr>HTTPPort = n\<rparr>" if "- (2 ^ 63) \<le> n \<and> n \<le> 2 ^ 63 - 1"
    using that known by (simp add: decodeConfig_def)
  have skipped: "decodeConfig ?default (Some (JObject members)) = Some ?default"
    if "list_all (\<lambda>m. \<not> matchesField (fst m) ''http_port'') members"
    using skip [OF that] by (simp add: decodeConfig_def)
  from absent decoded failure stored skipped show ?thesis by blast
qed

theorem parseJsonConfig_default_and_errors_witness:
  "parseJsonConfig configFiles ''missing.json'' = (\<lparr>HTTPPort = 80\<rparr>, None)
   \<and> parseJsonConfig configFiles ''config.json'' = (\<lparr>HTTPPort = 8080\<rparr>, None)
   \<and> snd (parseJsonConfig configFiles ''broken.json'') \<noteq> None
   \<and> snd (parseJsonConfig configFiles ''/root/config.json'') \<noteq> None"
proof -
  note main = parseJsonConfig_default_and_errors [of configFiles]
  have "configFiles ''missing.json'' = NotExist ''no such file or directory''" by code_simp
  with main [of "''missing.json''"]
  have a: "parseJsonConfig configFiles ''missing.json'' = (\<lparr>HTTPPort = 80\<rparr>, None)" by blast
  have "configFiles ''config.json'' = Opened (Some (JObject [(''http_port'', JNumber (IntLit 8080))]))"
    by code_simp
  moreover have "decodeConfig \<lparr>HTTPPort = 80\<rparr> (Some (JObject [(''http_port'', JNumber (IntLit 8080))]))
      = Some \<lparr>HTTPPort = 8080\<rparr>"
    using main [of _ _ _ _ 8080] by simp
  ultimately have b: "parseJsonConfig configFiles ''config.json'' = (\<lparr>HTTPPort = 8080\<rparr>, None)"
    using main [of "''config.json''"] by blast
  have "configFiles ''broken.json'' = Opened (Some (JObject [(''http_port'', JString ''8080'')]))"
    by code_simp
  moreover have "decodeConfig \<lparr>HTTPPort = 80\<rparr> (Some (JObject [(''http_port'', JString ''8080'')])) = None"
    by code_simp
  ultimately have c: "snd (parseJsonConfig configFiles ''broken.json'') \<noteq> None"
    using main [of "''broken.json''"] by blast
  have "configFiles ''/root/config.json'' = OpenError ''permission denied''" by code_simp
  then have d: "snd (parseJsonConfig configFiles ''/root/config.json'') \<noteq> None"
    using main [of "''/root/config.json''"] by blast
  from a b c d show ?thesis by simp
qed

subsection \<open>C10: the port query's output\<close>

text \<open>
  Claim C10. When the port query of a run succeeds, the run panics exactly when the
  output of the query, without the white space around it, holds no colon: the split
  at \<open>:\<close> then has one element and element 1 is out of range. With a colon in the output
  this access never panics.
\<close>

theorem port_query_without_colon_panics:
  assumes run: "CloneAndBuild sys u w = (r, tr, w')"
      and q: "(DockerPort cid, wp) \<in> set tr"
      and out: "Exec sys (DockerPort cid) wp = ((b, None), wq)"
  shows "((\<exists>p. r = Panics p) \<longleftrightarrow> CHR '':'' \<notin> set (TrimSpace b))
       \<and> (CHR '':'' \<notin> set (TrimSpace b) \<longrightarrow> r = Panics (IndexOutOfRange 1 1))"
  using CloneAndBuild_outcome [OF run] q out
  by cases (auto simp del: One_nat_def simp add: index_Split_None strings_Split_no_sep
        dest: index_Split_Some)

theorem port_query_without_colon_panics_witness:
  "fst (CloneAndBuild terse_sys repo0 host1) = Panics (IndexOutOfRange 1 1)
   \<and> (\<forall>p. fst (CloneAndBuild host_sys repo0 host1) \<noteq> Panics p)"
proof -
  let ?run = "CloneAndBuild terse_sys repo0 host1"
  let ?tr = "fst (snd ?run)"
  have run: "?run = (fst ?run, ?tr, snd (snd ?run))" by simp
  have "commands ?tr ! 4 = DockerPort ''abc123''" by code_simp
  moreover have "4 < length (commands ?tr)" by code_simp
  ultimately have q: "(DockerPort ''abc123'', snd (?tr ! 4)) \<in> set ?tr"
    using trace_nth [of 4 ?tr] by simp
  have out: "Exec terse_sys (DockerPort ''abc123'') (snd (?tr ! 4)) = ((''3005'', None), snd (?tr ! 4))"
    by (simp add: terse_sys_def)
  have bare: "CHR '':'' \<notin> set (TrimSpace ''3005'')" by code_simp
  from port_query_without_colon_panics [OF run q out] bare
  have a: "fst ?run = Panics (IndexOutOfRange 1 1)" by simp
  let ?run' = "CloneAndBuild host_sys repo0 host1"
  let ?tr' = "fst (snd ?run')"
  let ?pq = "Exec host_sys (DockerPort ''abc123'') (snd (?tr' ! 4))"
  have run': "?run' = (fst ?run', ?tr', snd (snd ?run'))" by simp
  have "commands ?tr' ! 4 = DockerPort ''abc123''" by code_simp
  moreover have "4 < length (commands ?tr')" by code_simp
  ultimately have q': "(DockerPort ''abc123'', snd (?tr' ! 4)) \<in> set ?tr'"
    using trace_nth [of 4 ?tr'] by simp
  have "snd (fst ?pq) = None" by code_simp
  then have out': "?pq = ((fst (fst ?pq), None), snd ?pq)" by (rule Exec_succeeded)
  have colon: "CHR '':'' \<in> set (TrimSpace (fst (fst ?pq)))" by code_simp
  from port_query_without_colon_panics [OF run' q' out'] colon
  have "\<forall>p. fst ?run' \<noteq> Panics p" by simp
  with a show ?thesis by simp
qed

end
